theory Spec2Isabelle
  imports Complex_Main
begin

section \<open>Arrays of the numerical library\<close>

text \<open>
  The notebooks compute with the arrays of NumPy and the tensors of PyTorch. The entries
  and the shape of either are modelled by one type of arrays over the reals (exact
  arithmetic; element types and rounding are outside the model): a 0-dimensional value,
  a 1-dimensional array, or a 2-dimensional array given as the list of its rows. A
  2-dimensional array is rectangular. An array without rows is \<open>Mat []\<close>, whatever
  its number of columns: the model does not tell such arrays apart, and the notebooks
  have none. An exception of the library is a value \<open>Inl e\<close>.

  The notebooks on training and on checkpoints hold tensors only, and a tensor is given
  there by its entries. The attention notebook holds objects of both classes, which the
  functions of NumPy do not treat alike; there a NumPy array is an \<open>ndarray\<close> and a
  tensor is marked as a \<open>tensor\<close>.
\<close>

datatype error =
  ValueError | IndexError | TypeError | RuntimeError | KeyError | ZeroDivisionError |
  FileNotFoundError

datatype ndarray = Scalar real | Vec "real list" | Mat "real list list"

definition ebind :: "error + 'a \<Rightarrow> ('a \<Rightarrow> error + 'b) \<Rightarrow> error + 'b" where
  "ebind m f = (case m of Inl e \<Rightarrow> Inl e | Inr v \<Rightarrow> f v)"

definition nrows :: "real list list \<Rightarrow> nat" where
  "nrows A = length A"

definition ncols :: "real list list \<Rightarrow> nat" where
  "ncols A = (case A of [] \<Rightarrow> 0 | r # _ \<Rightarrow> length r)"

definition rectangular :: "real list list \<Rightarrow> bool" where
  "rectangular A = list_all (\<lambda>r. length r = ncols A) A"

text \<open>The shape of an array, as \<open>x.shape\<close> gives it.\<close>

fun shape :: "ndarray \<Rightarrow> nat list" where
  "shape (Scalar a) = []"
| "shape (Vec xs) = [length xs]"
| "shape (Mat A) = [nrows A, ncols A]"

definition col :: "real list list \<Rightarrow> nat \<Rightarrow> real list" where
  "col A j = map (\<lambda>r. r ! j) A"

definition columns :: "real list list \<Rightarrow> real list list" where
  "columns A = map (col A) [0..<ncols A]"

definition dot :: "real list \<Rightarrow> real list \<Rightarrow> real" where
  "dot xs ys = sum_list (map2 (*) xs ys)"

text \<open>\<open>x.T\<close> and \<open>np.transpose(x)\<close>: the axes reversed; an array of fewer than two
  dimensions is returned as it is.\<close>

fun np_transpose :: "ndarray \<Rightarrow> ndarray" where
  "np_transpose (Scalar a) = Scalar a"
| "np_transpose (Vec xs) = Vec xs"
| "np_transpose (Mat A) = Mat (columns A)"

text \<open>\<open>a @ b\<close> (\<open>np.matmul\<close>): a 0-dimensional operand is refused; a 1-dimensional
  operand is a row on the left and a column on the right; the inner extents must agree.\<close>

fun matmul :: "ndarray \<Rightarrow> ndarray \<Rightarrow> error + ndarray" where
  "matmul (Scalar a) y = Inl ValueError"
| "matmul x (Scalar b) = Inl ValueError"
| "matmul (Vec xs) (Vec ys) =
     (if length xs = length ys then Inr (Scalar (dot xs ys)) else Inl ValueError)"
| "matmul (Vec xs) (Mat B) =
     (if length xs = nrows B then Inr (Vec (map (dot xs) (columns B))) else Inl ValueError)"
| "matmul (Mat A) (Vec ys) =
     (if ncols A = length ys then Inr (Vec (map (\<lambda>r. dot r ys) A)) else Inl ValueError)"
| "matmul (Mat A) (Mat B) =
     (if ncols A = nrows B then Inr (Mat (map (\<lambda>r. map (dot r) (columns B)) A))
      else Inl ValueError)"

text \<open>\<open>np.dot(a, b)\<close>: the product by a number when an operand is 0-dimensional,
  the matrix product otherwise.\<close>

fun np_dot :: "ndarray \<Rightarrow> ndarray \<Rightarrow> error + ndarray" where
  "np_dot (Scalar a) (Scalar b) = Inr (Scalar (a * b))"
| "np_dot (Scalar a) (Vec ys) = Inr (Vec (map (\<lambda>y. a * y) ys))"
| "np_dot (Scalar a) (Mat B) = Inr (Mat (map (map (\<lambda>y. a * y)) B))"
| "np_dot (Vec xs) (Scalar b) = Inr (Vec (map (\<lambda>x. x * b) xs))"
| "np_dot (Mat A) (Scalar b) = Inr (Mat (map (map (\<lambda>x. x * b)) A))"
| "np_dot (Vec xs) (Vec ys) = matmul (Vec xs) (Vec ys)"
| "np_dot (Vec xs) (Mat B) = matmul (Vec xs) (Mat B)"
| "np_dot (Mat A) (Vec ys) = matmul (Mat A) (Vec ys)"
| "np_dot (Mat A) (Mat B) = matmul (Mat A) (Mat B)"

text \<open>Broadcasting of an elementwise operation: two extents are compatible when they
  are equal or one of them is 1, and the operand of extent 1 is repeated. A 1-dimensional
  operand meets a 2-dimensional one as a single row. The exception \<open>e\<close> is the one
  the calling library raises on incompatible shapes.\<close>

definition extents_agree :: "nat \<Rightarrow> nat \<Rightarrow> bool" where
  "extents_agree m n = (m = n \<or> m = 1 \<or> n = 1)"

definition stretch :: "('a \<Rightarrow> 'b \<Rightarrow> 'c) \<Rightarrow> 'a list \<Rightarrow> 'b list \<Rightarrow> 'c list" where
  "stretch f xs ys =
     (if length xs = 1 \<and> length ys \<noteq> 1 then map (f (hd xs)) ys
      else if length ys = 1 \<and> length xs \<noteq> 1 then map (\<lambda>x. f x (hd ys)) xs
      else map2 f xs ys)"

fun broadcast :: "error \<Rightarrow> (real \<Rightarrow> real \<Rightarrow> real) \<Rightarrow> ndarray \<Rightarrow> ndarray \<Rightarrow> error + ndarray" where
  "broadcast e f (Scalar a) (Scalar b) = Inr (Scalar (f a b))"
| "broadcast e f (Scalar a) (Vec ys) = Inr (Vec (map (f a) ys))"
| "broadcast e f (Scalar a) (Mat B) = Inr (Mat (map (map (f a)) B))"
| "broadcast e f (Vec xs) (Scalar b) = Inr (Vec (map (\<lambda>x. f x b) xs))"
| "broadcast e f (Mat A) (Scalar b) = Inr (Mat (map (map (\<lambda>x. f x b)) A))"
| "broadcast e f (Vec xs) (Vec ys) =
     (if extents_agree (length xs) (length ys) then Inr (Vec (stretch f xs ys)) else Inl e)"
| "broadcast e f (Vec xs) (Mat B) =
     (if extents_agree 1 (nrows B) \<and> extents_agree (length xs) (ncols B)
      then Inr (Mat (stretch (stretch f) [xs] B)) else Inl e)"
| "broadcast e f (Mat A) (Vec ys) =
     (if extents_agree (nrows A) 1 \<and> extents_agree (ncols A) (length ys)
      then Inr (Mat (stretch (stretch f) A [ys])) else Inl e)"
| "broadcast e f (Mat A) (Mat B) =
     (if extents_agree (nrows A) (nrows B) \<and> extents_agree (ncols A) (ncols B)
      then Inr (Mat (stretch (stretch f) A B)) else Inl e)"

text \<open>The sums along axis 1: the sums of the rows of a 2-dimensional array; an array of
  fewer dimensions has no axis 1.\<close>

fun sum_axis1 :: "ndarray \<Rightarrow> error + ndarray" where
  "sum_axis1 (Scalar a) = Inl IndexError"
| "sum_axis1 (Vec xs) = Inl IndexError"
| "sum_axis1 (Mat A) = Inr (Vec (map sum_list A))"

text \<open>A tensor of PyTorch in the attention notebook: an object of another class than the
  NumPy array, with entries and a shape of the same form.\<close>

datatype tensor = Tensor ndarray

definition as_tensor :: "error + ndarray \<Rightarrow> error + tensor" where
  "as_tensor m = ebind m (\<lambda>r. Inr (Tensor r))"

text \<open>\<open>torch.FloatTensor(x)\<close> for a NumPy array \<open>x\<close>: a tensor with the entries of the
  array; a plain number is not a sequence.\<close>

fun torch_FloatTensor :: "ndarray \<Rightarrow> error + tensor" where
  "torch_FloatTensor (Scalar a) = Inl TypeError"
| "torch_FloatTensor (Vec xs) = Inr (Tensor (Vec xs))"
| "torch_FloatTensor (Mat A) = Inr (Tensor (Mat A))"

text \<open>\<open>torch.exp(x)\<close>: the exponential of every entry.\<close>

fun torch_exp :: "tensor \<Rightarrow> tensor" where
  "torch_exp (Tensor (Scalar a)) = Tensor (Scalar (exp a))"
| "torch_exp (Tensor (Vec xs)) = Tensor (Vec (map exp xs))"
| "torch_exp (Tensor (Mat A)) = Tensor (Mat (map (map exp) A))"

text \<open>\<open>x.sum(axis=1)\<close> for a tensor \<open>x\<close>: a tensor again.\<close>

fun tensor_sum :: "tensor \<Rightarrow> error + tensor" where
  "tensor_sum (Tensor x) = as_tensor (sum_axis1 x)"

text \<open>\<open>x / y\<close> for two tensors, with broadcasting.\<close>

fun tensor_div :: "tensor \<Rightarrow> tensor \<Rightarrow> error + tensor" where
  "tensor_div (Tensor x) (Tensor y) = as_tensor (broadcast RuntimeError (/) x y)"

text \<open>\<open>x * a\<close> for a tensor \<open>x\<close> and a NumPy array \<open>a\<close>, with broadcasting: the
  result is a tensor, as the output of the notebook shows it.\<close>

fun tensor_mul_array :: "tensor \<Rightarrow> ndarray \<Rightarrow> error + tensor" where
  "tensor_mul_array (Tensor x) a = as_tensor (broadcast RuntimeError (*) x a)"

text \<open>What \<open>np.sum\<close> is given in place of an array: a NumPy array, or an object of
  another class, here a tensor.\<close>

datatype array_like = NumPy ndarray | Torch tensor

text \<open>\<open>np.sum(x, axis=1)\<close>: the sums of the rows of a NumPy array. An object of another
  class that has a method \<open>sum\<close> is handed the call as \<open>x.sum(axis=1, out=None)\<close>, and
  the method of a tensor does not take the keyword \<open>out\<close>: the call raises
  \<open>TypeError\<close>.\<close>

fun np_sum :: "array_like \<Rightarrow> error + ndarray" where
  "np_sum (NumPy x) = sum_axis1 x"
| "np_sum (Torch x) = Inl TypeError"

text \<open>\<open>x / c\<close> for a Python number \<open>c\<close>.\<close>

fun div_number :: "ndarray \<Rightarrow> real \<Rightarrow> ndarray" where
  "div_number (Scalar a) c = Scalar (a / c)"
| "div_number (Vec xs) c = Vec (map (\<lambda>x. x / c) xs)"
| "div_number (Mat A) c = Mat (map (map (\<lambda>x. x / c)) A)"

text \<open>\<open>x[:, None]\<close> for a 1-dimensional array \<open>x\<close>: the column with the entries
  of \<open>x\<close>.\<close>

definition column :: "real list \<Rightarrow> ndarray" where
  "column xs = Mat (map (\<lambda>x. [x]) xs)"

section \<open>The attention walkthrough\<close>

text \<open>The cells of the notebook in their order: its data, its functions, and the values it
  computes with them. A primed name is the parameter of a function that the notebook
  names like one of its values. Each function is modelled on the classes of objects the
  notebook gives it: NumPy arrays for the two scoring functions and for \<open>softmax\<close>,
  whose result is a tensor; the tensor of the weights and the NumPy array of the
  annotations for \<open>apply_attention_scores\<close>, whose result is a tensor again; an array
  or a tensor for \<open>calculate_attention_vector\<close>, which is given the tensor of the
  weighted annotations.\<close>

definition dec_hidden_state :: "real list" where
  "dec_hidden_state = [0.5, 0.1, 2]"

definition annotation :: "real list" where
  "annotation = [0.3, 1.2, 4.5]"

definition single_dot_attention_score :: "ndarray \<Rightarrow> ndarray \<Rightarrow> error + ndarray" where
  "single_dot_attention_score dec_hidden_state' enc_hidden_state =
     np_dot dec_hidden_state' enc_hidden_state"

definition annotations :: ndarray where
  "annotations =
     div_number (np_transpose (Mat [[3, 12, 45], [59, 2, 5], [1, 43, 5], [4, 3, 45.3]])) 10"

definition dot_attention_score :: "ndarray \<Rightarrow> ndarray \<Rightarrow> error + ndarray" where
  "dot_attention_score dec_hidden_state' annotations' =
     matmul (np_transpose dec_hidden_state') annotations'"

definition attention_weights_raw :: "error + ndarray" where
  "attention_weights_raw = dot_attention_score (column dec_hidden_state) annotations"

definition softmax :: "ndarray \<Rightarrow> error + tensor" where
  "softmax x0 =
     ebind (torch_FloatTensor x0) (\<lambda>x.
       let e_x = torch_exp x in
       ebind (tensor_sum e_x) (\<lambda>s. tensor_div e_x s))"

definition attention_weights :: "error + tensor" where
  "attention_weights = ebind attention_weights_raw softmax"

definition apply_attention_scores :: "tensor \<Rightarrow> ndarray \<Rightarrow> error + tensor" where
  "apply_attention_scores attention_weights' annotations' =
     tensor_mul_array attention_weights' annotations'"

definition applied_attention :: "error + tensor" where
  "applied_attention =
     ebind attention_weights (\<lambda>w. apply_attention_scores w annotations)"

definition calculate_attention_vector :: "array_like \<Rightarrow> error + ndarray" where
  "calculate_attention_vector applied_attention' = np_sum applied_attention'"

definition attention_vector :: "error + ndarray" where
  "attention_vector =
     ebind applied_attention (\<lambda>t. calculate_attention_vector (Torch t))"

text \<open>The walkthrough from a decoder state and an annotation matrix to the context
  vector: scoring, softmax, weighting, summation, in the notebook's order, each
  function on the result of the one before.\<close>

definition attention_walkthrough :: "ndarray \<Rightarrow> ndarray \<Rightarrow> error + ndarray" where
  "attention_walkthrough d A =
     ebind (dot_attention_score d A) (\<lambda>raw.
       ebind (softmax raw) (\<lambda>w.
         ebind (apply_attention_scores w A) (\<lambda>t.
           calculate_attention_vector (Torch t))))"

section \<open>The training notebook\<close>

subsection \<open>Layers and sequential models\<close>

text \<open>\<open>nn.Linear(in_features, out_features)\<close>: a weight of \<open>out_features\<close> rows of
  \<open>in_features\<close> entries and a bias of \<open>out_features\<close> entries. The library draws the
  initial entries at random; here they are read from \<open>init\<close>, a pair of arbitrary
  functions from positions to values.\<close>

record linear =
  in_features :: nat
  out_features :: nat
  weight :: "real list list"
  bias :: "real list"

type_synonym init = "(nat \<Rightarrow> nat \<Rightarrow> real) \<times> (nat \<Rightarrow> real)"

definition nn_Linear :: "init \<Rightarrow> nat \<Rightarrow> nat \<Rightarrow> linear" where
  "nn_Linear init i out =
     \<lparr>in_features = i, out_features = out,
      weight = map (\<lambda>r. map (fst init r) [0..<i]) [0..<out],
      bias = map (snd init) [0..<out]\<rparr>"

datatype layer = Linear linear | ReLU | LogSoftmax nat

text \<open>The affine map of a linear layer on one input row: entry \<open>j\<close> of the result is the
  product of the row with row \<open>j\<close> of the weight, plus entry \<open>j\<close> of the bias.\<close>

definition affine :: "linear \<Rightarrow> real list \<Rightarrow> real list" where
  "affine l x = map2 (+) (map (dot x) (weight l)) (bias l)"

definition log_softmax_row :: "real list \<Rightarrow> real list" where
  "log_softmax_row xs = map (\<lambda>x. x - ln (sum_list (map exp xs))) xs"

text \<open>The forward pass of one layer. A linear layer needs the last extent of its input to
  be \<open>in_features\<close>. \<open>nn.LogSoftmax(dim)\<close> normalises along axis \<open>dim\<close>: along the
  rows of a batch for \<open>dim=1\<close>, along its columns for \<open>dim=0\<close>.\<close>

fun layer_forward :: "layer \<Rightarrow> ndarray \<Rightarrow> error + ndarray" where
  "layer_forward (Linear l) (Scalar a) = Inl RuntimeError"
| "layer_forward (Linear l) (Vec x) =
     (if length x = in_features l then Inr (Vec (affine l x)) else Inl RuntimeError)"
| "layer_forward (Linear l) (Mat X) =
     (if ncols X = in_features l then Inr (Mat (map (affine l) X)) else Inl RuntimeError)"
| "layer_forward ReLU (Scalar a) = Inr (Scalar (max 0 a))"
| "layer_forward ReLU (Vec x) = Inr (Vec (map (max 0) x))"
| "layer_forward ReLU (Mat X) = Inr (Mat (map (map (max 0)) X))"
| "layer_forward (LogSoftmax d) (Scalar a) =
     (if d = 0 then Inr (Scalar 0) else Inl IndexError)"
| "layer_forward (LogSoftmax d) (Vec x) =
     (if d = 0 then Inr (Vec (log_softmax_row x)) else Inl IndexError)"
| "layer_forward (LogSoftmax d) (Mat X) =
     (if d = 1 then Inr (Mat (map log_softmax_row X))
      else if d = 0 then Inr (Mat (columns (map log_softmax_row (columns X))))
      else Inl IndexError)"

text \<open>\<open>nn.Sequential\<close>: the layers in order, each on the output of the one before.\<close>

fun forward :: "layer list \<Rightarrow> ndarray \<Rightarrow> error + ndarray" where
  "forward [] x = Inr x"
| "forward (l # ls) x = ebind (layer_forward l x) (forward ls)"

text \<open>The model of the cell that uses \<open>nn.CrossEntropyLoss\<close>, and the model of the cells
  that use \<open>nn.NLLLoss\<close>; \<open>i1\<close>, \<open>i2\<close>, \<open>i3\<close> give the entries of the three linear
  layers.\<close>

definition model_cross_entropy :: "init \<Rightarrow> init \<Rightarrow> init \<Rightarrow> layer list" where
  "model_cross_entropy i1 i2 i3 =
     [Linear (nn_Linear i1 784 128), ReLU,
      Linear (nn_Linear i2 128 64), ReLU,
      Linear (nn_Linear i3 64 10)]"

definition model_nll :: "init \<Rightarrow> init \<Rightarrow> init \<Rightarrow> layer list" where
  "model_nll i1 i2 i3 =
     [Linear (nn_Linear i1 784 128), ReLU,
      Linear (nn_Linear i2 128 64), ReLU,
      Linear (nn_Linear i3 64 10),
      LogSoftmax 1]"

text \<open>The value each of the two cells names \<open>logits\<close>: \<open>logits = model(images)\<close>.\<close>

definition logits_cross_entropy :: "init \<Rightarrow> init \<Rightarrow> init \<Rightarrow> ndarray \<Rightarrow> error + ndarray" where
  "logits_cross_entropy i1 i2 i3 images = forward (model_cross_entropy i1 i2 i3) images"

definition logits_nll :: "init \<Rightarrow> init \<Rightarrow> init \<Rightarrow> ndarray \<Rightarrow> error + ndarray" where
  "logits_nll i1 i2 i3 images = forward (model_nll i1 i2 i3) images"

subsection \<open>The training loop\<close>

text \<open>
  The loop is modelled over the calls it makes to the library. The parameters of the
  model are one family of reals, indexed by position. What the library computes is
  taken as given: \<open>loss_fn p b\<close> is the loss that the forward pass and the criterion
  return for parameters \<open>p\<close> on batch \<open>b\<close>, and \<open>grad_fn p b\<close> is the gradient of that
  loss with respect to the parameters. The state records the parameters, their
  accumulated gradient (\<open>None\<close> until the first backward pass), the calls made so
  far, oldest first, and what has been printed.
\<close>

datatype call = ModelForward | Criterion | ZeroGrad | Backward | OptimizerStep

record 'b loss_tensor =
  item :: real
  graph_params :: "nat \<Rightarrow> real"
  graph_batch :: 'b

record trainer =
  params :: "nat \<Rightarrow> real"
  grads :: "(nat \<Rightarrow> real) option"
  calls :: "call list"
  printed :: "real list"

text \<open>\<open>logits = model(images); loss = criterion(logits, labels)\<close>: the loss keeps the
  graph of its computation, that is, the parameters and the batch it was computed from.\<close>

definition forward_loss ::
  "((nat \<Rightarrow> real) \<Rightarrow> 'b \<Rightarrow> real) \<Rightarrow> trainer \<Rightarrow> 'b \<Rightarrow> 'b loss_tensor \<times> trainer" where
  "forward_loss loss_fn s b =
     (\<lparr>item = loss_fn (params s) b, graph_params = params s, graph_batch = b\<rparr>,
      s\<lparr>calls := calls s @ [ModelForward, Criterion]\<rparr>)"

text \<open>\<open>optimizer.zero_grad()\<close>: every gradient that exists is set to zero.\<close>

definition zero_grad :: "trainer \<Rightarrow> trainer" where
  "zero_grad s = s\<lparr>grads := map_option (\<lambda>g i. 0) (grads s), calls := calls s @ [ZeroGrad]\<rparr>"

text \<open>\<open>loss.backward()\<close>: the gradient of the loss, at the parameters and the batch of its
  graph, is added to the accumulated gradient.\<close>

definition backward ::
  "((nat \<Rightarrow> real) \<Rightarrow> 'b \<Rightarrow> nat \<Rightarrow> real) \<Rightarrow> 'b loss_tensor \<Rightarrow> trainer \<Rightarrow> trainer" where
  "backward grad_fn loss s =
     (let g = grad_fn (graph_params loss) (graph_batch loss)
      in s\<lparr>grads := Some (case grads s of None \<Rightarrow> g | Some a \<Rightarrow> (\<lambda>i. a i + g i)),
            calls := calls s @ [Backward]\<rparr>)"

text \<open>\<open>optimizer.step()\<close> of \<open>optim.SGD\<close> with learning rate \<open>lr\<close>: parameters without
  a gradient are skipped.\<close>

definition optimizer_step :: "real \<Rightarrow> trainer \<Rightarrow> trainer" where
  "optimizer_step lr s =
     s\<lparr>params := (case grads s of None \<Rightarrow> params s | Some g \<Rightarrow> (\<lambda>i. params s i - lr * g i)),
       calls := calls s @ [OptimizerStep]\<rparr>"

text \<open>The body of the inner loop for one batch; the second component is
  \<open>running_loss\<close>.\<close>

definition training_pass ::
  "((nat \<Rightarrow> real) \<Rightarrow> 'b \<Rightarrow> real) \<Rightarrow> ((nat \<Rightarrow> real) \<Rightarrow> 'b \<Rightarrow> nat \<Rightarrow> real) \<Rightarrow> real \<Rightarrow>
   'b \<Rightarrow> trainer \<times> real \<Rightarrow> trainer \<times> real" where
  "training_pass loss_fn grad_fn lr b sr =
     (let (loss, s1) = forward_loss loss_fn (fst sr) b;
          s2 = zero_grad s1;
          s3 = backward grad_fn loss s2;
          s4 = optimizer_step lr s3
      in (s4, snd sr + item loss))"

text \<open>One epoch: \<open>running_loss = 0\<close>, the inner loop over the batches the loader yields,
  and the \<open>else\<close> branch of the loop, which prints the mean loss; the division raises
  when the loader has no batch.\<close>

definition train_epoch ::
  "((nat \<Rightarrow> real) \<Rightarrow> 'b \<Rightarrow> real) \<Rightarrow> ((nat \<Rightarrow> real) \<Rightarrow> 'b \<Rightarrow> nat \<Rightarrow> real) \<Rightarrow> real \<Rightarrow>
   'b list \<Rightarrow> trainer \<Rightarrow> error + trainer" where
  "train_epoch loss_fn grad_fn lr batches s =
     (let (s', running_loss) = fold (training_pass loss_fn grad_fn lr) batches (s, 0)
      in if length batches = 0 then Inl ZeroDivisionError
         else Inr (s'\<lparr>printed := printed s' @ [running_loss / real (length batches)]\<rparr>))"

text \<open>The outer loop \<open>for e in range(epochs)\<close>; \<open>trainloader e\<close> is the list of batches
  the shuffling loader yields in epoch \<open>e\<close>.\<close>

fun train_epochs ::
  "((nat \<Rightarrow> real) \<Rightarrow> 'b \<Rightarrow> real) \<Rightarrow> ((nat \<Rightarrow> real) \<Rightarrow> 'b \<Rightarrow> nat \<Rightarrow> real) \<Rightarrow> real \<Rightarrow>
   (nat \<Rightarrow> 'b list) \<Rightarrow> nat list \<Rightarrow> trainer \<Rightarrow> error + trainer" where
  "train_epochs loss_fn grad_fn lr trainloader [] s = Inr s"
| "train_epochs loss_fn grad_fn lr trainloader (e # es) s =
     ebind (train_epoch loss_fn grad_fn lr (trainloader e) s)
       (train_epochs loss_fn grad_fn lr trainloader es)"

definition training_loop ::
  "((nat \<Rightarrow> real) \<Rightarrow> 'b \<Rightarrow> real) \<Rightarrow> ((nat \<Rightarrow> real) \<Rightarrow> 'b \<Rightarrow> nat \<Rightarrow> real) \<Rightarrow> real \<Rightarrow> nat \<Rightarrow>
   (nat \<Rightarrow> 'b list) \<Rightarrow> trainer \<Rightarrow> error + trainer" where
  "training_loop loss_fn grad_fn lr epochs trainloader s =
     train_epochs loss_fn grad_fn lr trainloader [0..<epochs] s"

text \<open>The loop as the notebook runs it: learning rate 0.003 and 5 epochs.\<close>

definition training_notebook ::
  "((nat \<Rightarrow> real) \<Rightarrow> 'b \<Rightarrow> real) \<Rightarrow> ((nat \<Rightarrow> real) \<Rightarrow> 'b \<Rightarrow> nat \<Rightarrow> real) \<Rightarrow>
   (nat \<Rightarrow> 'b list) \<Rightarrow> trainer \<Rightarrow> error + trainer" where
  "training_notebook loss_fn grad_fn trainloader s =
     training_loop loss_fn grad_fn 0.003 5 trainloader s"

text \<open>The calls of one pass over one batch, in the order the loop makes them.\<close>

definition pass_calls :: "call list" where
  "pass_calls = [ModelForward, Criterion, ZeroGrad, Backward, OptimizerStep]"

section \<open>The notebook on saving and loading models\<close>

subsection \<open>The network and its state dict\<close>

text \<open>
  Modelled from the spec: \<open>fc_model.Network\<close> is not among the source files. The spec
  describes a feed-forward network given by a list of layer sizes, and the notebook
  prints the network as a list \<open>hidden_layers\<close> of linear layers, from the input size
  through the hidden sizes, followed by a linear layer \<open>output\<close> (here \<open>output'\<close>) from the last
  hidden size to the output size (its dropout layer holds no parameter and is left out). A
  network needs a first hidden layer; without one the constructor raises. \<open>inits n\<close>
  gives the initial entries of linear layer number \<open>n\<close>.
\<close>

record network =
  hidden_layers :: "linear list"
  output' :: linear

definition Network :: "(nat \<Rightarrow> init) \<Rightarrow> nat \<Rightarrow> nat \<Rightarrow> nat list \<Rightarrow> error + network" where
  "Network inits input_size output_size hidden =
     (if hidden = [] then Inl IndexError
      else Inr \<lparr>hidden_layers =
                  map (\<lambda>(n, i, out). nn_Linear (inits n) i out)
                    (enumerate 0 (zip (input_size # hidden) hidden)),
                output' = nn_Linear (inits (length hidden)) (last hidden) output_size\<rparr>)"

text \<open>The names of the parameters: \<open>hidden_layers.n.weight\<close>, \<open>hidden_layers.n.bias\<close>,
  \<open>output.weight\<close> and \<open>output.bias\<close>.\<close>

datatype param_name = HiddenWeight nat | HiddenBias nat | OutputWeight | OutputBias

text \<open>\<open>model.state_dict()\<close>: the parameters by name, in the order of the layers.\<close>

type_synonym state_dict = "(param_name \<times> ndarray) list"

fun hidden_entries :: "nat \<Rightarrow> linear list \<Rightarrow> state_dict" where
  "hidden_entries n [] = []"
| "hidden_entries n (l # ls) =
     (HiddenWeight n, Mat (weight l)) # (HiddenBias n, Vec (bias l)) # hidden_entries (Suc n) ls"

definition state_dict :: "network \<Rightarrow> state_dict" where
  "state_dict model =
     hidden_entries 0 (hidden_layers model) @
     [(OutputWeight, Mat (weight (output' model))), (OutputBias, Vec (bias (output' model)))]"

subsection \<open>Loading a state dict\<close>

text \<open>
  \<open>model.load_state_dict(state_dict)\<close> of the library, in its default strict mode. It
  walks over the parameters of the model. A parameter whose name is in the state dict
  with a tensor of the same shape is overwritten with that tensor; a parameter whose
  name is missing, or whose tensor has another shape, is left as it is and noted as an
  error. Names of the state dict that the model does not have are errors as well. Only
  after the walk, when there is an error, the call raises. Since the model is changed in
  place, the result is the outcome together with the model as the call leaves it.
\<close>

definition load_tensor :: "state_dict \<Rightarrow> param_name \<Rightarrow> ndarray \<Rightarrow> ndarray option" where
  "load_tensor sd k p =
     (case map_of sd k of
        None \<Rightarrow> None
      | Some t \<Rightarrow> if shape t = shape p then Some t else None)"

definition load_linear :: "state_dict \<Rightarrow> param_name \<Rightarrow> param_name \<Rightarrow> linear \<Rightarrow> linear \<times> bool" where
  "load_linear sd kw kb l =
     (let w = load_tensor sd kw (Mat (weight l));
          b = load_tensor sd kb (Vec (bias l))
      in (l\<lparr>weight := (case w of Some (Mat W) \<Rightarrow> W | _ \<Rightarrow> weight l),
            bias := (case b of Some (Vec v) \<Rightarrow> v | _ \<Rightarrow> bias l)\<rparr>,
          w \<noteq> None \<and> b \<noteq> None))"

fun load_hidden :: "state_dict \<Rightarrow> nat \<Rightarrow> linear list \<Rightarrow> (linear \<times> bool) list" where
  "load_hidden sd n [] = []"
| "load_hidden sd n (l # ls) =
     load_linear sd (HiddenWeight n) (HiddenBias n) l # load_hidden sd (Suc n) ls"

definition load_state_dict :: "network \<Rightarrow> state_dict \<Rightarrow> (error + unit) \<times> network" where
  "load_state_dict model sd =
     (let hs = load_hidden sd 0 (hidden_layers model);
          out = load_linear sd OutputWeight OutputBias (output' model);
          unexpected = filter (\<lambda>k. k \<notin> set (map fst (state_dict model))) (map fst sd)
      in (if list_all snd hs \<and> snd out \<and> unexpected = [] then Inr () else Inl RuntimeError,
          \<lparr>hidden_layers = map fst hs, output' = fst out\<rparr>))"

subsection \<open>Checkpoints\<close>

text \<open>The objects the notebook saves: a state dict, or a dictionary with string keys
  whose entries are numbers, lists of numbers and a state dict.\<close>

datatype pyobj =
  PyInt nat | PyList "nat list" | PyStateDict state_dict | PyDict "(string \<times> pyobj) list"

text \<open>\<open>obj[key]\<close> for a string key: a state dict has no such key, a number or a list
  cannot be indexed by a string.\<close>

fun getitem :: "pyobj \<Rightarrow> string \<Rightarrow> error + pyobj" where
  "getitem (PyDict kvs) k = (case map_of kvs k of None \<Rightarrow> Inl KeyError | Some v \<Rightarrow> Inr v)"
| "getitem (PyStateDict sd) k = Inl KeyError"
| "getitem (PyInt n) k = Inl TypeError"
| "getitem (PyList ns) k = Inl TypeError"

text \<open>The files: \<open>torch.save(obj, path)\<close> writes the object, \<open>torch.load(path)\<close> reads
  it back as it was written.\<close>

type_synonym files = "string \<Rightarrow> pyobj option"

definition torch_save :: "pyobj \<Rightarrow> string \<Rightarrow> files \<Rightarrow> files" where
  "torch_save obj path fs = fs(path \<mapsto> obj)"

definition torch_load :: "files \<Rightarrow> string \<Rightarrow> error + pyobj" where
  "torch_load fs path = (case fs path of None \<Rightarrow> Inl FileNotFoundError | Some obj \<Rightarrow> Inr obj)"

text \<open>The dictionary the notebook builds from its model before saving it.\<close>

definition checkpoint :: "network \<Rightarrow> pyobj" where
  "checkpoint model =
     PyDict [(''input_size'', PyInt 784),
           (''output_size'', PyInt 10),
           (''hidden_layers'', PyList (map out_features (hidden_layers model))),
           (''state_dict'', PyStateDict (state_dict model))]"

text \<open>The constructor and \<open>load_state_dict\<close> on the objects read from a checkpoint.\<close>

fun Network_of :: "(nat \<Rightarrow> init) \<Rightarrow> pyobj \<Rightarrow> pyobj \<Rightarrow> pyobj \<Rightarrow> error + network" where
  "Network_of inits (PyInt i) (PyInt out) (PyList hidden) = Network inits i out hidden"
| "Network_of inits a b c = Inl TypeError"

fun load_state_dict_of :: "network \<Rightarrow> pyobj \<Rightarrow> error + network" where
  "load_state_dict_of model (PyStateDict sd) =
     (case load_state_dict model sd of
        (Inl e, model') \<Rightarrow> Inl e
      | (Inr u, model') \<Rightarrow> Inr model')"
| "load_state_dict_of model obj = Inl TypeError"

definition load_checkpoint :: "(nat \<Rightarrow> init) \<Rightarrow> files \<Rightarrow> string \<Rightarrow> error + network" where
  "load_checkpoint inits fs filepath =
     ebind (torch_load fs filepath) (\<lambda>checkpoint'.
     ebind (getitem checkpoint' ''input_size'') (\<lambda>input_size.
     ebind (getitem checkpoint' ''output_size'') (\<lambda>output_size.
     ebind (getitem checkpoint' ''hidden_layers'') (\<lambda>hidden.
     ebind (Network_of inits input_size output_size hidden) (\<lambda>model.
     ebind (getitem checkpoint' ''state_dict'') (\<lambda>sd.
       load_state_dict_of model sd))))))"

text \<open>A network has the architecture of \<open>Network(i, out, hs)\<close> when its layers have the
  sizes the constructor gives them and every parameter has the shape of its layer; the
  entries of the parameters are arbitrary, as they are after training.\<close>

definition wf_linear :: "linear \<Rightarrow> bool" where
  "wf_linear l =
     (length (weight l) = out_features l \<and>
      list_all (\<lambda>r. length r = in_features l) (weight l) \<and>
      length (bias l) = out_features l)"

definition built_from :: "nat \<Rightarrow> nat \<Rightarrow> nat list \<Rightarrow> network \<Rightarrow> bool" where
  "built_from i out hs model =
     (hs \<noteq> [] \<and>
      map (\<lambda>l. (in_features l, out_features l)) (hidden_layers model) = zip (i # hs) hs \<and>
      in_features (output' model) = last hs \<and> out_features (output' model) = out \<and>
      list_all wf_linear (hidden_layers model) \<and> wf_linear (output' model))"

text \<open>The names and shapes of the tensors of a network.\<close>

definition param_shapes :: "network \<Rightarrow> (param_name \<times> nat list) list" where
  "param_shapes model = map (\<lambda>(k, t). (k, shape t)) (state_dict model)"

text \<open>Two linear layers whose weights have the same shape and whose biases have the same
  length.\<close>

definition shapes_agree :: "linear \<Rightarrow> linear \<Rightarrow> bool" where
  "shapes_agree l l0 =
     (shape (Mat (weight l0)) = shape (Mat (weight l)) \<and> length (bias l0) = length (bias l))"

text \<open>What \<open>load_state_dict\<close> leaves in a parameter, given its name and its tensor: the
  tensor of the state dict when the name is there with the same shape, its own tensor
  otherwise.\<close>

definition loaded :: "state_dict \<Rightarrow> param_name \<times> ndarray \<Rightarrow> param_name \<times> ndarray" where
  "loaded sd kp = (fst kp, case load_tensor sd (fst kp) (snd kp) of Some t \<Rightarrow> t | None \<Rightarrow> snd kp)"

section \<open>Properties of the attention walkthrough\<close>

subsection \<open>Auxiliary facts\<close>

lemma ebind_Inr: "ebind (Inr v) f = f v"
  by (simp add: ebind_def)

lemma len3: "length xs = 3 \<Longrightarrow> \<exists>a b c. xs = [a, b, c]"
  by (auto simp: numeral_3_eq_3 length_Suc_conv)

lemma len4: "length xs = 4 \<Longrightarrow> \<exists>a b c d. xs = [a, b, c, d]"
  by (auto simp: numeral_eq_Suc length_Suc_conv)

lemma ncols_Cons: "ncols (r # A) = length r"
  by (simp add: ncols_def)

lemma stretch_same_length: "length xs = length ys \<Longrightarrow> stretch f xs ys = map2 f xs ys"
  by (simp add: stretch_def)

lemma stretch_single_row: "stretch g [w] A = map (g w) A"
  by (cases A) (auto simp: stretch_def)

text \<open>Softmax of a score array with one row: every exponential is divided by the sum of
  the exponentials of the row.\<close>

lemma softmax_row:
  "softmax (Mat [xs]) = Inr (Tensor (Mat [map (\<lambda>x. exp x / sum_list (map exp xs)) xs]))"
  by (auto simp: softmax_def as_tensor_def ebind_def extents_agree_def nrows_def ncols_def
      stretch_def Let_def intro!: nth_equalityI split: list.splits)

text \<open>A weight row times an annotation matrix: the row is repeated over the rows of the
  matrix, so entry \<open>(k, i)\<close> is weight \<open>i\<close> times \<open>A[k][i]\<close>.\<close>

lemma weights_times_rows:
  assumes "A \<noteq> []" and "list_all (\<lambda>r. length r = length ws) A"
  shows "apply_attention_scores (Tensor (Mat [ws])) (Mat A) =
           Inr (Tensor (Mat (map (\<lambda>r. map2 (*) ws r) A)))"
proof -
  have nc: "ncols A = length ws"
    using assms by (cases A) (simp_all add: ncols_def)
  have "map (stretch (*) ws) A = map (\<lambda>r. map2 (*) ws r) A"
    using assms(2) by (intro map_cong refl stretch_same_length) (simp add: list_all_iff)
  then show ?thesis
    by (simp add: apply_attention_scores_def as_tensor_def ebind_def extents_agree_def
        nrows_def nc ncols_Cons stretch_single_row)
qed

lemma sum_list_divide: "sum_list (map (\<lambda>x. f x / (c::real)) xs) = sum_list (map f xs) / c"
  by (induction xs) (simp_all add: add_divide_distrib)

lemma sum_list_exp_nonneg: "0 \<le> sum_list (map exp (xs::real list))"
  by (rule sum_list_nonneg) auto

lemma sum_list_exp_pos: "xs \<noteq> [] \<Longrightarrow> 0 < sum_list (map exp (xs::real list))"
  by (cases xs) (simp_all add: add_pos_nonneg sum_list_exp_nonneg)

lemma convex_upper:
  assumes "length ws = length as" and "list_all (\<lambda>w. 0 \<le> w) ws"
    and "list_all (\<lambda>a. a \<le> M) as"
  shows "sum_list (map2 (*) ws as) \<le> (M::real) * sum_list ws"
  using assms
proof (induction ws as rule: list_induct2)
  case Nil
  then show ?case by simp
next
  case (Cons w ws a as)
  then have "w * a \<le> w * M" by (simp add: mult_left_mono)
  with Cons show ?case by (simp add: algebra_simps)
qed

lemma convex_lower:
  assumes "length ws = length as" and "list_all (\<lambda>w. 0 \<le> w) ws"
    and "list_all (\<lambda>a. M \<le> a) as"
  shows "(M::real) * sum_list ws \<le> sum_list (map2 (*) ws as)"
  using assms
proof (induction ws as rule: list_induct2)
  case Nil
  then show ?case by simp
next
  case (Cons w ws a as)
  then have "w * M \<le> w * a" by (simp add: mult_left_mono)
  with Cons show ?case by (simp add: algebra_simps)
qed

text \<open>The scores of a 3-component decoder state, passed as a column, against a
  3-by-4 annotation matrix: one row of four sums of products.\<close>

lemma dot_attention_score_column:
  assumes "length d = 3" and "length A = 3" and "list_all (\<lambda>r. length r = 4) A"
  shows "dot_attention_score (column d) (Mat A) =
           Inr (Mat [map (\<lambda>i. \<Sum>r<3. d ! r * A ! r ! i) [0..<4]])"
proof -
  obtain d0 d1 d2 where d: "d = [d0, d1, d2]"
    using len3 [OF assms(1)] by blast
  obtain r0 r1 r2 where A: "A = [r0, r1, r2]"
    using len3 [OF assms(2)] by blast
  obtain a00 a01 a02 a03 where r0: "r0 = [a00, a01, a02, a03]"
    using len4 [of r0] assms(3) A by auto
  obtain a10 a11 a12 a13 where r1: "r1 = [a10, a11, a12, a13]"
    using len4 [of r1] assms(3) A by auto
  obtain a20 a21 a22 a23 where r2: "r2 = [a20, a21, a22, a23]"
    using len4 [of r2] assms(3) A by auto
  show ?thesis
    by (simp add: d A r0 r1 r2 dot_attention_score_def column_def columns_def col_def
        ncols_def nrows_def dot_def upt_conv_Cons eval_nat_numeral)
qed

subsection \<open>The walkthrough returns no context vector\<close>

text \<open>The values of the notebook up to the weighted annotations: the annotation matrix,
  the raw scores, a NumPy array of one row, and the weights and the weighted
  annotations, which are tensors.\<close>

lemma annotations_eq:
  "annotations = Mat [[0.3, 5.9, 0.1, 0.4], [1.2, 0.2, 4.3, 0.3], [4.5, 0.5, 0.5, 4.53]]"
  by (simp add: annotations_def columns_def col_def ncols_def upt_conv_Cons)

lemma attention_weights_raw_eq:
  "attention_weights_raw = Inr (Mat [[9.27, 3.97, 1.48, 9.29]])"
  by (simp add: attention_weights_raw_def dot_attention_score_def column_def
      dec_hidden_state_def annotations_eq columns_def col_def ncols_def nrows_def dot_def
      upt_conv_Cons)

lemma attention_weights_eq:
  "attention_weights =
     Inr (Tensor (Mat [map (\<lambda>x. exp x / sum_list (map exp [9.27, 3.97, 1.48, 9.29]))
                         [9.27, 3.97, 1.48, 9.29]]))"
  unfolding attention_weights_def attention_weights_raw_eq ebind_Inr by (rule softmax_row)

lemma applied_attention_eq:
  "applied_attention =
     Inr (Tensor (Mat (map (\<lambda>r. map2 (*)
            (map (\<lambda>x. exp x / sum_list (map exp [9.27, 3.97, 1.48, 9.29]))
               [9.27, 3.97, 1.48, 9.29]) r)
          [[0.3, 5.9, 0.1, 0.4], [1.2, 0.2, 4.3, 0.3], [4.5, 0.5, 0.5, 4.53]])))"
  unfolding applied_attention_def attention_weights_eq ebind_Inr annotations_eq
  by (rule weights_times_rows) simp_all

text \<open>On a decoder state of 3 components and a 3-by-4 annotation matrix, whatever their
  entries, the first three functions return and the last one raises.\<close>

lemma attention_walkthrough_type_error:
  assumes "length d = 3" and "length A = 3" and "list_all (\<lambda>r. length r = 4) A"
  shows "attention_walkthrough (column d) (Mat A) = Inl TypeError"
proof -
  let ?xs = "map (\<lambda>i. \<Sum>r<3. d ! r * A ! r ! i) [0..<4]"
  let ?ws = "map (\<lambda>x. exp x / sum_list (map exp ?xs)) ?xs"
  have ne: "A \<noteq> []" using assms(2) by auto
  have rows: "list_all (\<lambda>r. length r = length ?ws) A"
    using assms(3) by simp
  have sc: "dot_attention_score (column d) (Mat A) = Inr (Mat [?xs])"
    using assms by (rule dot_attention_score_column)
  have sm: "softmax (Mat [?xs]) = Inr (Tensor (Mat [?ws]))"
    by (rule softmax_row)
  have ap: "apply_attention_scores (Tensor (Mat [?ws])) (Mat A) =
              Inr (Tensor (Mat (map (\<lambda>r. map2 (*) ?ws r) A)))"
    using ne rows by (rule weights_times_rows)
  show ?thesis
    unfolding attention_walkthrough_def sc ebind_Inr sm ap
    by (simp add: calculate_attention_vector_def)
qed

text \<open>
  Claim C1 says that the sequence \<open>dot_attention_score\<close>, \<open>softmax\<close>,
  \<open>apply_attention_scores\<close>, \<open>calculate_attention_vector\<close> returns the weighted sum
  of the annotations. On the decoder state and the annotations of the notebook the first
  three functions return, the weighted annotations being a tensor of 3 rows, and
  \<open>calculate_attention_vector\<close> raises \<open>TypeError\<close> on it: \<open>np.sum\<close> hands the sum
  to the tensor, whose method does not take the keyword \<open>out\<close>. Neither the cell of
  the notebook nor the composed sequence returns a context vector.
\<close>

theorem attention_walkthrough_raises:
  "(\<exists>P. applied_attention = Inr (Tensor (Mat P)) \<and> length P = 3) \<and>
   attention_vector = Inl TypeError \<and>
   attention_walkthrough (column dec_hidden_state) annotations = Inl TypeError"
proof -
  have "\<exists>P. applied_attention = Inr (Tensor (Mat P)) \<and> length P = 3"
    unfolding applied_attention_eq by simp
  moreover have "attention_vector = Inl TypeError"
    unfolding attention_vector_def applied_attention_eq ebind_Inr
    by (simp add: calculate_attention_vector_def)
  moreover have "attention_walkthrough (column dec_hidden_state) annotations = Inl TypeError"
    unfolding annotations_eq
    by (rule attention_walkthrough_type_error) (simp_all add: dec_hidden_state_def)
  ultimately show ?thesis
    by blast
qed

subsection \<open>Softmax gives a probability distribution\<close>

text \<open>
  Claim C2. For every real-valued score vector given to \<open>softmax\<close> (a score array with
  one row, as \<open>dot_attention_score\<close> returns it, with at least one score), the call
  returns a tensor of one row of as many entries, every entry is non-negative, and the
  entries sum to exactly 1.
\<close>

theorem softmax_probability_distribution:
  assumes "xs \<noteq> []"
  shows "\<exists>ws. softmax (Mat [xs]) = Inr (Tensor (Mat [ws])) \<and> length ws = length xs \<and>
           list_all (\<lambda>w. 0 \<le> w) ws \<and> sum_list ws = 1"
proof -
  let ?S = "sum_list (map exp xs)"
  let ?ws = "map (\<lambda>x. exp x / ?S) xs"
  have S: "0 < ?S" using assms by (rule sum_list_exp_pos)
  have "list_all (\<lambda>w. 0 \<le> w) ?ws"
    using S by (simp add: list_all_iff)
  moreover have "sum_list ?ws = 1"
    using S by (simp add: sum_list_divide)
  ultimately show ?thesis
    by (intro exI[of _ ?ws]) (simp add: softmax_row)
qed

theorem softmax_probability_distribution_witness:
  "[0, 0, 0, 0 :: real] \<noteq> [] \<and>
   (\<exists>ws. softmax (Mat [[0, 0, 0, 0]]) = Inr (Tensor (Mat [ws])) \<and>
      length ws = length [0, 0, 0, 0 :: real] \<and>
      list_all (\<lambda>w. 0 \<le> w) ws \<and> sum_list ws = 1)"
  using softmax_probability_distribution [of "[0, 0, 0, 0]"]
  by simp

subsection \<open>Operations that raise\<close>

text \<open>
  Claim C6 says that every operation of the sequence returns a value for every
  real-valued input, a plain 1-dimensional score vector given to \<open>softmax\<close> included.
  On the four raw scores of the notebook, given as a 1-dimensional vector, \<open>softmax\<close>
  raises: it sums over axis 1, which a 1-dimensional tensor does not have.
\<close>

theorem softmax_plain_vector_counterexample:
  "softmax (Vec [9.27, 3.97, 1.48, 9.29]) = Inl IndexError"
  by (simp add: softmax_def as_tensor_def ebind_def)

text \<open>
  Claim C6, amended. On inputs of the classes and shapes the walkthrough gives them, each
  of the first four operations returns a value: \<open>single_dot_attention_score\<close> on two
  NumPy vectors of 3 components, \<open>dot_attention_score\<close> on a NumPy column of 3
  components and a 3-by-4 NumPy matrix, \<open>softmax\<close> on a NumPy array with one row of 4
  scores, \<open>apply_attention_scores\<close> on a tensor with one row of 4 weights and a 3-by-4
  NumPy matrix.
\<close>

theorem attention_operations_return_on_walkthrough_shapes:
  assumes "length d = 3" and "length e = 3" and "length A = 3"
    and "list_all (\<lambda>r. length r = 4) A" and "length xs = 4"
  shows "(\<exists>v. single_dot_attention_score (Vec d) (Vec e) = Inr v) \<and>
         (\<exists>v. dot_attention_score (column d) (Mat A) = Inr v) \<and>
         (\<exists>v. softmax (Mat [xs]) = Inr v) \<and>
         (\<exists>v. apply_attention_scores (Tensor (Mat [xs])) (Mat A) = Inr v)"
proof -
  have ne: "A \<noteq> []" using assms(3) by auto
  have rows: "list_all (\<lambda>r. length r = length xs) A"
    using assms(4,5) by simp
  have "\<exists>v. single_dot_attention_score (Vec d) (Vec e) = Inr v"
    using assms(1,2) by (simp add: single_dot_attention_score_def)
  moreover have "\<exists>v. dot_attention_score (column d) (Mat A) = Inr v"
    using dot_attention_score_column [OF assms(1,3,4)] by simp
  moreover have "\<exists>v. softmax (Mat [xs]) = Inr v"
    by (simp add: softmax_row)
  moreover have "\<exists>v. apply_attention_scores (Tensor (Mat [xs])) (Mat A) = Inr v"
    using weights_times_rows [OF ne rows] by simp
  ultimately show ?thesis
    by blast
qed

theorem attention_operations_return_on_walkthrough_shapes_witness:
  "length [1, 2, 3 :: real] = 3 \<and> length [0, 1, 0 :: real] = 3 \<and>
   length [[1, 0, 0, 1], [0, 1, 0, 1], [0, 0, 1, 1 :: real]] = 3 \<and>
   list_all (\<lambda>r. length r = 4) [[1, 0, 0, 1], [0, 1, 0, 1], [0, 0, 1, 1 :: real]] \<and>
   length [0, 0, 0, 0 :: real] = 4 \<and>
   (\<exists>v. single_dot_attention_score (Vec [1, 2, 3]) (Vec [0, 1, 0]) = Inr v) \<and>
   (\<exists>v. dot_attention_score (column [1, 2, 3]) (Mat [[1, 0, 0, 1], [0, 1, 0, 1], [0, 0, 1, 1]]) = Inr v) \<and>
   (\<exists>v. softmax (Mat [[0, 0, 0, 0]]) = Inr v) \<and>
   (\<exists>v. apply_attention_scores (Tensor (Mat [[0, 0, 0, 0]]))
          (Mat [[1, 0, 0, 1], [0, 1, 0, 1], [0, 0, 1, 1]]) = Inr v)"
  using attention_operations_return_on_walkthrough_shapes
    [of "[1, 2, 3]" "[0, 1, 0]" "[[1, 0, 0, 1], [0, 1, 0, 1], [0, 0, 1, 1]]" "[0, 0, 0, 0]"]
  by simp

subsection \<open>The sizes of the walkthrough's arrays\<close>

text \<open>
  Claim C8. In the walkthrough the decoder hidden state has exactly 3 components, the
  single annotation has exactly 3 components, the annotation matrix is rectangular with
  3 rows and 4 columns, so there are exactly 4 annotations (its columns) of exactly 3
  components each, and the raw-score array and the attention-weight tensor each hold one
  row of exactly 4 entries. The weighted annotations are again 3 by 4.
\<close>

theorem walkthrough_array_sizes:
  "shape (Vec dec_hidden_state) = [3] \<and> shape (Vec annotation) = [3] \<and>
   (\<exists>A. annotations = Mat A \<and> rectangular A \<and> shape annotations = [3, 4] \<and>
      length (columns A) = 4 \<and> list_all (\<lambda>a. length a = 3) (columns A)) \<and>
   (\<exists>raw. attention_weights_raw = Inr (Mat [raw]) \<and> length raw = 4) \<and>
   (\<exists>w. attention_weights = Inr (Tensor (Mat [w])) \<and> length w = 4) \<and>
   (\<exists>P. applied_attention = Inr (Tensor (Mat P)) \<and> rectangular P \<and> shape (Mat P) = [3, 4])"
proof -
  have "\<exists>A. annotations = Mat A \<and> rectangular A \<and> shape annotations = [3, 4] \<and>
      length (columns A) = 4 \<and> list_all (\<lambda>a. length a = 3) (columns A)"
    unfolding annotations_eq
    by (simp add: columns_def col_def ncols_def nrows_def rectangular_def upt_conv_Cons)
  moreover have "\<exists>raw. attention_weights_raw = Inr (Mat [raw]) \<and> length raw = 4"
    unfolding attention_weights_raw_eq by simp
  moreover have "\<exists>w. attention_weights = Inr (Tensor (Mat [w])) \<and> length w = 4"
    unfolding attention_weights_eq by simp
  moreover have "\<exists>P. applied_attention = Inr (Tensor (Mat P)) \<and> rectangular P \<and>
      shape (Mat P) = [3, 4]"
    unfolding applied_attention_eq by (simp add: rectangular_def ncols_def nrows_def)
  moreover have "shape (Vec dec_hidden_state) = [3] \<and> shape (Vec annotation) = [3]"
    by (simp add: dec_hidden_state_def annotation_def)
  ultimately show ?thesis
    by blast
qed

subsection \<open>Scoring all annotations at once agrees with scoring each one\<close>

text \<open>
  Claim C9. For every decoder hidden state \<open>d\<close> with 3 components and every annotation
  matrix \<open>A\<close> with 3 rows and 4 columns, \<open>dot_attention_score\<close> (on the column of
  \<open>d\<close>) returns one row of 4 scores, and its entry \<open>i\<close> is the value
  \<open>single_dot_attention_score\<close> returns for \<open>d\<close> and column \<open>i\<close> of \<open>A\<close>.
\<close>

theorem dot_attention_score_agrees_single:
  assumes "length d = 3" and "length A = 3" and "list_all (\<lambda>r. length r = 4) A" and "i < 4"
  shows "\<exists>s. dot_attention_score (column d) (Mat A) = Inr (Mat [s]) \<and> length s = 4 \<and>
           single_dot_attention_score (Vec d) (Vec (col A i)) = Inr (Scalar (s ! i))"
proof -
  obtain d0 d1 d2 where d: "d = [d0, d1, d2]"
    using len3 [OF assms(1)] by blast
  obtain r0 r1 r2 where A: "A = [r0, r1, r2]"
    using len3 [OF assms(2)] by blast
  have i: "i = 0 \<or> i = 1 \<or> i = 2 \<or> i = 3"
    using assms(4) by auto
  have "single_dot_attention_score (Vec d) (Vec (col A i)) =
          Inr (Scalar (map (\<lambda>i. \<Sum>r<3. d ! r * A ! r ! i) [0..<4] ! i))"
    using i by (auto simp: d A single_dot_attention_score_def col_def dot_def
        upt_conv_Cons eval_nat_numeral)
  then show ?thesis
    using dot_attention_score_column [OF assms(1,2,3)] by simp
qed

theorem dot_attention_score_agrees_single_witness:
  "length [1, 2, 3 :: real] = 3 \<and> length [[1, 0, 0, 1], [0, 1, 0, 1], [0, 0, 1, 1 :: real]] = 3 \<and>
   list_all (\<lambda>r. length r = 4) [[1, 0, 0, 1], [0, 1, 0, 1], [0, 0, 1, 1 :: real]] \<and> (3::nat) < 4 \<and>
   (\<exists>s. dot_attention_score (column [1, 2, 3]) (Mat [[1, 0, 0, 1], [0, 1, 0, 1], [0, 0, 1, 1]])
          = Inr (Mat [s]) \<and> length s = 4 \<and>
        single_dot_attention_score (Vec [1, 2, 3])
          (Vec (col [[1, 0, 0, 1], [0, 1, 0, 1], [0, 0, 1, 1]] 3)) = Inr (Scalar (s ! 3)))"
  using dot_attention_score_agrees_single
    [of "[1, 2, 3]" "[[1, 0, 0, 1], [0, 1, 0, 1], [0, 0, 1, 1]]" 3]
  by simp

subsection \<open>The convex combination is not computed\<close>

text \<open>The weights that \<open>softmax\<close> returns are strictly positive and sum to 1, and the
  sums of the rows of the weighted annotations lie between the least and the greatest
  entry of the row of the annotation matrix. \<open>calculate_attention_vector\<close> returns
  these sums when it is given the weighted annotations as a NumPy array.\<close>

lemma weighted_rows_convex_combination:
  assumes "xs \<noteq> []" and "A \<noteq> []" and "list_all (\<lambda>r. length r = length xs) A"
    and "k < length A"
  shows "\<exists>ws P c. softmax (Mat [xs]) = Inr (Tensor (Mat [ws])) \<and>
           list_all (\<lambda>w. 0 < w) ws \<and> sum_list ws = 1 \<and>
           apply_attention_scores (Tensor (Mat [ws])) (Mat A) = Inr (Tensor P) \<and>
           calculate_attention_vector (NumPy P) = Inr (Vec c) \<and> length c = length A \<and>
           Min (set (A ! k)) \<le> c ! k \<and> c ! k \<le> Max (set (A ! k))"
proof -
  let ?S = "sum_list (map exp xs)"
  let ?ws = "map (\<lambda>x. exp x / ?S) xs"
  let ?P = "map (\<lambda>r. map2 (*) ?ws r) A"
  let ?c = "map sum_list ?P"
  have S: "0 < ?S" using assms(1) by (rule sum_list_exp_pos)
  have pos: "list_all (\<lambda>w. 0 < w) ?ws"
    using S by (simp add: list_all_iff)
  then have nonneg: "list_all (\<lambda>w. 0 \<le> w) ?ws"
    by (simp add: list_all_iff less_imp_le)
  have one: "sum_list ?ws = 1"
    using S by (simp add: sum_list_divide)
  have rows: "list_all (\<lambda>r. length r = length ?ws) A"
    using assms(3) by simp
  have app: "apply_attention_scores (Tensor (Mat [?ws])) (Mat A) = Inr (Tensor (Mat ?P))"
    using assms(2) rows by (rule weights_times_rows)
  have len: "length ?ws = length (A ! k)"
    using assms(3,4) by (simp add: list_all_length)
  have ck: "?c ! k = sum_list (map2 (*) ?ws (A ! k))"
    using assms(4) by simp
  have "sum_list (map2 (*) ?ws (A ! k)) \<le> Max (set (A ! k)) * sum_list ?ws"
    using len nonneg by (rule convex_upper) (simp add: list_all_iff)
  moreover have "Min (set (A ! k)) * sum_list ?ws \<le> sum_list (map2 (*) ?ws (A ! k))"
    using len nonneg by (rule convex_lower) (simp add: list_all_iff)
  ultimately have bounds: "Min (set (A ! k)) \<le> ?c ! k \<and> ?c ! k \<le> Max (set (A ! k))"
    unfolding ck one by simp
  have sm: "softmax (Mat [xs]) = Inr (Tensor (Mat [?ws]))"
    by (rule softmax_row)
  have cv: "calculate_attention_vector (NumPy (Mat ?P)) = Inr (Vec ?c)"
    by (simp add: calculate_attention_vector_def)
  have "length ?c = length A"
    by simp
  with sm pos one app cv bounds show ?thesis
    by blast
qed

text \<open>
  Claim C10 says that the context vector which \<open>calculate_attention_vector\<close> produces
  from the result of \<open>apply_attention_scores\<close> is a convex combination of the
  annotations. On the raw scores and the annotations of the notebook \<open>softmax\<close> returns
  strictly positive weights that sum to 1 and \<open>apply_attention_scores\<close> returns the
  weighted annotations, a tensor; \<open>calculate_attention_vector\<close> raises \<open>TypeError\<close>
  on that tensor, so no context vector is produced.
\<close>

theorem context_vector_not_produced:
  "\<exists>ws P. softmax (Mat [[9.27, 3.97, 1.48, 9.29]]) = Inr (Tensor (Mat [ws])) \<and>
     list_all (\<lambda>w. 0 < w) ws \<and> sum_list ws = 1 \<and>
     apply_attention_scores (Tensor (Mat [ws])) annotations = Inr (Tensor (Mat P)) \<and>
     calculate_attention_vector (Torch (Tensor (Mat P))) = Inl TypeError"
proof -
  let ?xs = "[9.27, 3.97, 1.48, 9.29] :: real list"
  let ?S = "sum_list (map exp ?xs)"
  let ?ws = "map (\<lambda>x. exp x / ?S) ?xs"
  let ?A = "[[0.3, 5.9, 0.1, 0.4], [1.2, 0.2, 4.3, 0.3], [4.5, 0.5, 0.5, 4.53]] :: real list list"
  let ?P = "map (\<lambda>r. map2 (*) ?ws r) ?A"
  have S: "0 < ?S" by (rule sum_list_exp_pos) simp
  have sm: "softmax (Mat [?xs]) = Inr (Tensor (Mat [?ws]))"
    by (rule softmax_row)
  have pos: "list_all (\<lambda>w. 0 < w) ?ws"
    using S by (simp add: list_all_iff)
  have one: "sum_list ?ws = 1"
    using S by (simp only: sum_list_divide) simp
  have app: "apply_attention_scores (Tensor (Mat [?ws])) annotations = Inr (Tensor (Mat ?P))"
    unfolding annotations_eq by (rule weights_times_rows) simp_all
  have cv: "calculate_attention_vector (Torch (Tensor (Mat ?P))) = Inl TypeError"
    by (simp add: calculate_attention_vector_def)
  from sm pos one app cv show ?thesis
    by blast
qed

section \<open>Properties of the training notebook\<close>

subsection \<open>What the notebook names logits\<close>

lemma ebind_assoc: "ebind (ebind m f) g = ebind m (\<lambda>v. ebind (f v) g)"
  by (cases m) (simp_all add: ebind_def)

lemma ebind_return: "ebind m Inr = m"
  by (cases m) (simp_all add: ebind_def)

lemma forward_append: "forward (ls @ ms) x = ebind (forward ls x) (forward ms)"
proof (induction ls arbitrary: x)
  case Nil
  then show ?case by (simp add: ebind_def)
next
  case (Cons l ls)
  then show ?case by (cases "layer_forward l x") (simp_all add: ebind_def)
qed

lemma log_softmax_row_exp_sum:
  assumes "xs \<noteq> []"
  shows "sum_list (map exp (log_softmax_row xs)) = 1"
proof -
  let ?S = "sum_list (map exp xs)"
  have S: "0 < ?S" using assms by (rule sum_list_exp_pos)
  have "map exp (log_softmax_row xs) = map (\<lambda>x. exp x / ?S) xs"
    using S by (simp add: log_softmax_row_def exp_diff)
  then show ?thesis
    using S by (simp add: sum_list_divide)
qed

lemma length_affine_nn_Linear: "length (affine (nn_Linear init i out) x) = out"
  by (simp add: affine_def nn_Linear_def)

lemma model_nll_append:
  "model_nll i1 i2 i3 = model_cross_entropy i1 i2 i3 @ [LogSoftmax 1]"
  by (simp add: model_nll_def model_cross_entropy_def)

lemma ncols_rows:
  assumes "X \<noteq> []" and "list_all (\<lambda>r. length r = n) X"
  shows "ncols X = n"
  using assms by (cases X) (simp_all add: ncols_def)

lemma linear_forward_rows:
  assumes "X \<noteq> []" and "list_all (\<lambda>r. length r = i) X"
  shows "layer_forward (Linear (nn_Linear init i out)) (Mat X) =
           Inr (Mat (map (affine (nn_Linear init i out)) X))"
  using ncols_rows [OF assms] by (simp add: nn_Linear_def)

lemma affine_rows:
  "list_all (\<lambda>r. length r = out) (map (affine (nn_Linear init i out)) X)"
  by (simp add: list_all_iff length_affine_nn_Linear)

lemma relu_rows:
  assumes "list_all (\<lambda>r. length r = n) X"
  shows "list_all (\<lambda>r. length r = n) (map (map (max 0)) X)"
  using assms by (simp add: list_all_iff)

text \<open>The layers before the last linear layer, on a batch of rows of 784 entries: the
  hidden activations, one row of 64 entries per image.\<close>

lemma butlast_model_cross_entropy:
  "butlast (model_cross_entropy i1 i2 i3) =
     [Linear (nn_Linear i1 784 128), ReLU, Linear (nn_Linear i2 128 64), ReLU]"
  by (simp add: model_cross_entropy_def)

lemma hidden_forward_rows:
  assumes "X \<noteq> []" and "list_all (\<lambda>r. length r = 784) X"
  shows "forward (butlast (model_cross_entropy i1 i2 i3)) (Mat X) =
           Inr (Mat (map (map (max 0)) (map (affine (nn_Linear i2 128 64))
             (map (map (max 0)) (map (affine (nn_Linear i1 784 128)) X)))))"
proof -
  let ?A1 = "map (affine (nn_Linear i1 784 128)) X"
  let ?R1 = "map (map (max 0)) ?A1"
  have l1: "layer_forward (Linear (nn_Linear i1 784 128)) (Mat X) = Inr (Mat ?A1)"
    using assms by (rule linear_forward_rows)
  have n1: "?R1 \<noteq> []"
    using assms(1) by simp
  have r1: "list_all (\<lambda>r. length r = 128) ?R1"
    by (rule relu_rows [OF affine_rows])
  have l2: "layer_forward (Linear (nn_Linear i2 128 64)) (Mat ?R1) =
              Inr (Mat (map (affine (nn_Linear i2 128 64)) ?R1))"
    using n1 r1 by (rule linear_forward_rows)
  show ?thesis
    unfolding butlast_model_cross_entropy forward.simps l1 l2 layer_forward.simps(6)
      ebind_Inr ..
qed

lemma model_cross_entropy_snoc:
  "model_cross_entropy i1 i2 i3 =
     butlast (model_cross_entropy i1 i2 i3) @ [Linear (nn_Linear i3 64 10)]"
  by (simp add: model_cross_entropy_def)

lemma logits_cross_entropy_rows:
  assumes "X \<noteq> []" and "list_all (\<lambda>r. length r = 784) X"
  shows "logits_cross_entropy i1 i2 i3 (Mat X) =
           Inr (Mat (map (affine (nn_Linear i3 64 10))
             (map (map (max 0)) (map (affine (nn_Linear i2 128 64))
               (map (map (max 0)) (map (affine (nn_Linear i1 784 128)) X))))))"
proof -
  let ?H = "map (map (max 0)) (map (affine (nn_Linear i2 128 64))
              (map (map (max 0)) (map (affine (nn_Linear i1 784 128)) X)))"
  have n: "?H \<noteq> []"
    using assms(1) by simp
  have r: "list_all (\<lambda>r. length r = 64) ?H"
    by (rule relu_rows [OF affine_rows])
  have l3: "layer_forward (Linear (nn_Linear i3 64 10)) (Mat ?H) =
              Inr (Mat (map (affine (nn_Linear i3 64 10)) ?H))"
    using n r by (rule linear_forward_rows)
  have "logits_cross_entropy i1 i2 i3 (Mat X) =
          ebind (forward (butlast (model_cross_entropy i1 i2 i3)) (Mat X))
            (forward [Linear (nn_Linear i3 64 10)])"
    unfolding logits_cross_entropy_def
    by (subst model_cross_entropy_snoc) (rule forward_append)
  also have "\<dots> = Inr (Mat (map (affine (nn_Linear i3 64 10)) ?H))"
    unfolding hidden_forward_rows [OF assms] ebind_Inr forward.simps l3 ..
  finally show ?thesis .
qed

lemma forward_single: "forward [l] = layer_forward l"
proof (rule ext)
  fix x
  have "forward [] = Inr" by (rule ext) simp
  then show "forward [l] x = layer_forward l x"
    by (simp add: ebind_return)
qed

lemma logits_nll_eq:
  "logits_nll i1 i2 i3 images =
     ebind (logits_cross_entropy i1 i2 i3 images) (layer_forward (LogSoftmax 1))"
  by (simp only: logits_nll_def logits_cross_entropy_def model_nll_append forward_append
      forward_single)

lemma dot_zero_row: "dot x (map (\<lambda>c. 0) cs) = 0"
proof -
  have "map2 (*) x (map (\<lambda>c. 0) cs) = map (\<lambda>p. 0) (zip x cs)"
    by (induction x arbitrary: cs) (auto simp: zip_Cons1 split: list.splits)
  then show ?thesis
    by (simp add: dot_def)
qed

lemma dot_zero_replicate: "dot x (replicate n 0) = 0"
  using dot_zero_row [of x "replicate n ()"] by (simp add: map_replicate_const)

lemma affine_zero: "affine (nn_Linear (\<lambda>r c. 0, \<lambda>r. 0) i out) x = replicate out 0"
  by (simp add: affine_def nn_Linear_def dot_zero_replicate map_replicate_const comp_def)

text \<open>
  Claim C5 says that every value the notebook names a logit is unnormalised, so that the
  exponentials of one row of the model output do not sum to 1. In the cells that use
  \<open>nn.NLLLoss\<close> the model ends with \<open>nn.LogSoftmax(dim=1)\<close>, and the value
  named \<open>logits\<close> is its output. With all parameters zero and one all-zero image, that
  value is one row of 10 entries \<open>- ln 10\<close>, whose exponentials sum to 1.
\<close>

theorem logits_nll_normalised_counterexample:
  "logits_nll (\<lambda>r c. 0, \<lambda>r. 0) (\<lambda>r c. 0, \<lambda>r. 0) (\<lambda>r c. 0, \<lambda>r. 0) (Mat [replicate 784 0])
     = Inr (Mat [replicate 10 (- ln 10)]) \<and>
   sum_list (map exp (replicate 10 (- ln 10 :: real))) = 1"
proof -
  have "logits_cross_entropy (\<lambda>r c. 0, \<lambda>r. 0) (\<lambda>r c. 0, \<lambda>r. 0) (\<lambda>r c. 0, \<lambda>r. 0)
          (Mat [replicate 784 0]) = Inr (Mat [replicate 10 0])"
    by (simp add: logits_cross_entropy_rows affine_zero)
  moreover have "log_softmax_row (replicate 10 0) = replicate 10 (- ln 10)"
    by (simp add: log_softmax_row_def sum_list_replicate)
  moreover have "sum_list (map exp (replicate 10 (- ln 10 :: real))) = 1"
    by (simp add: sum_list_replicate exp_minus)
  ultimately show ?thesis
    by (simp add: logits_nll_eq ebind_Inr)
qed

text \<open>
  Claim C5, amended. For every batch of images of 784 entries each and whatever the
  parameters: the value the \<open>nn.CrossEntropyLoss\<close> cell names \<open>logits\<close> is the
  output of the last linear layer, applied to what the layers before it return, with
  nothing applied after it, one row of 10 raw scores per image; the value the
  \<open>nn.NLLLoss\<close> cells name \<open>logits\<close> is the log-softmax of those rows, and the
  exponentials of each of its rows sum to exactly 1.
\<close>

theorem logits_of_the_two_models:
  assumes "X \<noteq> []" and "list_all (\<lambda>r. length r = 784) X"
  shows "\<exists>H R. forward (butlast (model_cross_entropy i1 i2 i3)) (Mat X) = Inr (Mat H) \<and>
           logits_cross_entropy i1 i2 i3 (Mat X) = Inr (Mat R) \<and>
           R = map (affine (nn_Linear i3 64 10)) H \<and>
           length R = length X \<and> list_all (\<lambda>row. length row = 10) R \<and>
           logits_nll i1 i2 i3 (Mat X) = Inr (Mat (map log_softmax_row R)) \<and>
           list_all (\<lambda>row. sum_list (map exp row) = 1) (map log_softmax_row R)"
proof -
  let ?H = "map (map (max 0)) (map (affine (nn_Linear i2 128 64))
              (map (map (max 0)) (map (affine (nn_Linear i1 784 128)) X)))"
  let ?R = "map (affine (nn_Linear i3 64 10)) ?H"
  have ce: "logits_cross_entropy i1 i2 i3 (Mat X) = Inr (Mat ?R)"
    using assms by (rule logits_cross_entropy_rows)
  have rows: "list_all (\<lambda>row. length row = 10) ?R"
    by (rule affine_rows)
  have "list_all (\<lambda>row. sum_list (map exp row) = 1) (map log_softmax_row ?R)"
    using rows by (auto simp: list_all_iff intro!: log_softmax_row_exp_sum)
  moreover have "logits_nll i1 i2 i3 (Mat X) = Inr (Mat (map log_softmax_row ?R))"
    by (simp add: logits_nll_eq ce ebind_Inr)
  moreover have "length ?R = length X"
    by simp
  moreover have "forward (butlast (model_cross_entropy i1 i2 i3)) (Mat X) = Inr (Mat ?H)"
    using assms by (rule hidden_forward_rows)
  ultimately show ?thesis
    using ce rows by blast
qed

theorem logits_of_the_two_models_witness:
  "[replicate 784 (0::real)] \<noteq> [] \<and> list_all (\<lambda>r. length r = 784) [replicate 784 (0::real)] \<and>
   (\<exists>H R. forward (butlast (model_cross_entropy (\<lambda>r c. 0, \<lambda>r. 0) (\<lambda>r c. 0, \<lambda>r. 0)
             (\<lambda>r c. 0, \<lambda>r. 0))) (Mat [replicate 784 0]) = Inr (Mat H) \<and>
      logits_cross_entropy (\<lambda>r c. 0, \<lambda>r. 0) (\<lambda>r c. 0, \<lambda>r. 0) (\<lambda>r c. 0, \<lambda>r. 0)
        (Mat [replicate 784 0]) = Inr (Mat R) \<and>
      R = map (affine (nn_Linear (\<lambda>r c. 0, \<lambda>r. 0) 64 10)) H \<and>
      length R = 1 \<and> list_all (\<lambda>row. length row = 10) R \<and>
      logits_nll (\<lambda>r c. 0, \<lambda>r. 0) (\<lambda>r c. 0, \<lambda>r. 0) (\<lambda>r c. 0, \<lambda>r. 0)
        (Mat [replicate 784 0]) = Inr (Mat (map log_softmax_row R)) \<and>
      list_all (\<lambda>row. sum_list (map exp row) = 1) (map log_softmax_row R))"
  using logits_of_the_two_models [of "[replicate 784 0]" "(\<lambda>r c. 0, \<lambda>r. 0)"
      "(\<lambda>r c. 0, \<lambda>r. 0)" "(\<lambda>r c. 0, \<lambda>r. 0)"]
  by simp

subsection \<open>The order of the calls in the training loop\<close>

lemma training_pass_eq:
  "training_pass loss_fn grad_fn lr b (s, r) =
     (s\<lparr>params := \<lambda>i. params s i - lr * grad_fn (params s) b i,
        grads := Some (grad_fn (params s) b),
        calls := calls s @ pass_calls\<rparr>,
      r + loss_fn (params s) b)"
  by (cases "grads s")
    (simp_all add: training_pass_def forward_loss_def zero_grad_def backward_def
      optimizer_step_def pass_calls_def Let_def)

text \<open>The state after the passes over a list of batches, one after the other: the
  parameters have taken one gradient step per batch, each at the parameters the step
  before it left; the gradient is the one of the last batch, at the parameters its pass
  started with; the calls are the five calls of a pass, once per batch.\<close>

lemma fold_training_pass_params:
  "params (fst (fold (training_pass loss_fn grad_fn lr) bs sr)) =
     fold (\<lambda>b p i. p i - lr * grad_fn p b i) bs (params (fst sr))"
proof (induction bs arbitrary: sr)
  case Nil
  then show ?case by simp
next
  case (Cons b bs)
  obtain s r where sr: "sr = (s, r)" by (cases sr)
  show ?case
    by (simp add: Cons.IH sr training_pass_eq)
qed

lemma fold_training_pass_grads:
  "grads (fst (fold (training_pass loss_fn grad_fn lr) bs sr)) =
     (if bs = [] then grads (fst sr)
      else Some (grad_fn (fold (\<lambda>b p i. p i - lr * grad_fn p b i) (butlast bs) (params (fst sr)))
                   (last bs)))"
proof (induction bs arbitrary: sr)
  case Nil
  then show ?case by simp
next
  case (Cons b bs)
  obtain s r where sr: "sr = (s, r)" by (cases sr)
  show ?case
    by (simp add: Cons.IH sr training_pass_eq)
qed

lemma fold_training_pass_calls:
  "calls (fst (fold (training_pass loss_fn grad_fn lr) bs sr)) =
     calls (fst sr) @ concat (replicate (length bs) pass_calls)"
proof (induction bs arbitrary: sr)
  case Nil
  then show ?case by simp
next
  case (Cons b bs)
  obtain s r where sr: "sr = (s, r)" by (cases sr)
  show ?case
    by (simp add: Cons.IH sr training_pass_eq)
qed

lemma train_epoch_state:
  assumes "batches \<noteq> []"
  shows "\<exists>s'. train_epoch loss_fn grad_fn lr batches s = Inr s' \<and>
           params s' = fold (\<lambda>b p i. p i - lr * grad_fn p b i) batches (params s) \<and>
           grads s' =
             Some (grad_fn (fold (\<lambda>b p i. p i - lr * grad_fn p b i) (butlast batches) (params s))
                     (last batches)) \<and>
           calls s' = calls s @ concat (replicate (length batches) pass_calls)"
proof -
  obtain s1 r1 where f: "fold (training_pass loss_fn grad_fn lr) batches (s, 0) = (s1, r1)"
    by (cases "fold (training_pass loss_fn grad_fn lr) batches (s, 0)")
  have "params s1 = fold (\<lambda>b p i. p i - lr * grad_fn p b i) batches (params s)"
    using fold_training_pass_params [of loss_fn grad_fn lr batches "(s, 0)"] f by simp
  moreover have "grads s1 =
      Some (grad_fn (fold (\<lambda>b p i. p i - lr * grad_fn p b i) (butlast batches) (params s))
              (last batches))"
    using fold_training_pass_grads [of loss_fn grad_fn lr batches "(s, 0)"] f assms by simp
  moreover have "calls s1 = calls s @ concat (replicate (length batches) pass_calls)"
    using fold_training_pass_calls [of loss_fn grad_fn lr batches "(s, 0)"] f by simp
  ultimately show ?thesis
    using assms by (simp add: train_epoch_def f)
qed

lemma train_epochs_state:
  assumes "list_all (\<lambda>e. trainloader e \<noteq> []) es"
  shows "\<exists>s'. train_epochs loss_fn grad_fn lr trainloader es s = Inr s' \<and>
           params s' =
             fold (\<lambda>b p i. p i - lr * grad_fn p b i) (concat (map trainloader es)) (params s) \<and>
           grads s' =
             (if es = [] then grads s
              else Some (grad_fn (fold (\<lambda>b p i. p i - lr * grad_fn p b i)
                                    (butlast (concat (map trainloader es))) (params s))
                           (last (concat (map trainloader es))))) \<and>
           calls s' = calls s @
             concat (replicate (sum_list (map (\<lambda>e. length (trainloader e)) es)) pass_calls)"
  using assms
proof (induction es arbitrary: s)
  case Nil
  then show ?case by simp
next
  case (Cons e es)
  let ?step = "\<lambda>b p i. p i - lr * grad_fn p b i"
  let ?rest = "concat (map trainloader es)"
  from Cons.prems have ne: "trainloader e \<noteq> []"
    and rest: "list_all (\<lambda>e. trainloader e \<noteq> []) es"
    by simp_all
  obtain s1 where s1: "train_epoch loss_fn grad_fn lr (trainloader e) s = Inr s1"
    and p1: "params s1 = fold ?step (trainloader e) (params s)"
    and g1: "grads s1 =
      Some (grad_fn (fold ?step (butlast (trainloader e)) (params s)) (last (trainloader e)))"
    and c1: "calls s1 = calls s @ concat (replicate (length (trainloader e)) pass_calls)"
    using train_epoch_state [OF ne, of loss_fn grad_fn lr s] by blast
  obtain s2 where s2: "train_epochs loss_fn grad_fn lr trainloader es s1 = Inr s2"
    and p2: "params s2 = fold ?step ?rest (params s1)"
    and g2: "grads s2 =
      (if es = [] then grads s1
       else Some (grad_fn (fold ?step (butlast ?rest) (params s1)) (last ?rest)))"
    and c2: "calls s2 = calls s1 @
      concat (replicate (sum_list (map (\<lambda>e. length (trainloader e)) es)) pass_calls)"
    using Cons.IH [OF rest, of s1] by blast
  have rest_ne: "es \<noteq> [] \<Longrightarrow> ?rest \<noteq> []"
    using rest by (cases es) simp_all
  have "train_epochs loss_fn grad_fn lr trainloader (e # es) s = Inr s2"
    by (simp add: s1 s2 ebind_def)
  moreover have "params s2 = fold ?step (concat (map trainloader (e # es))) (params s)"
    by (simp add: p2 p1)
  moreover have "grads s2 =
      Some (grad_fn (fold ?step (butlast (concat (map trainloader (e # es)))) (params s))
              (last (concat (map trainloader (e # es)))))"
  proof (cases "es = []")
    case True
    then show ?thesis by (simp add: g2 g1)
  next
    case False
    then have r: "?rest \<noteq> []" by (rule rest_ne)
    have cc: "concat (map trainloader (e # es)) = trainloader e @ ?rest"
      by simp
    have bl: "butlast (trainloader e @ ?rest) = trainloader e @ butlast ?rest"
      using r by (simp only: butlast_append if_False)
    have la: "last (trainloader e @ ?rest) = last ?rest"
      using r by (simp only: last_append if_False)
    have "grads s2 = Some (grad_fn (fold ?step (butlast ?rest) (params s1)) (last ?rest))"
      using False by (simp only: g2 if_False)
    then show ?thesis
      unfolding cc bl la fold_append comp_apply p1 .
  qed
  moreover have "calls s2 = calls s @
      concat (replicate (sum_list (map (\<lambda>e. length (trainloader e)) (e # es))) pass_calls)"
    by (simp add: c2 c1 replicate_add)
  ultimately show ?case
    by simp
qed

text \<open>The loop as the notebook runs it, with learning rate 0.003 and 5 epochs: it returns
  when the loader yields a batch in each of them, the parameters have taken one step per
  batch, and it has made the five calls once per batch.\<close>

lemma training_notebook_state:
  assumes "list_all (\<lambda>e. trainloader e \<noteq> []) [0..<5]"
  shows "\<exists>s'. training_notebook loss_fn grad_fn trainloader s = Inr s' \<and>
           params s' =
             fold (\<lambda>b p i. p i - 0.003 * grad_fn p b i) (concat (map trainloader [0..<5]))
               (params s) \<and>
           calls s' = calls s @
             concat (replicate (sum_list (map (\<lambda>e. length (trainloader e)) [0..<5])) pass_calls)"
  unfolding training_notebook_def training_loop_def
  using train_epochs_state [OF assms, of loss_fn grad_fn "0.003" s] by blast

text \<open>
  Claim C7. One pass of the training loop over a batch calls the model and the criterion
  (the forward pass producing the loss), then \<open>zero_grad\<close>, then \<open>backward\<close>, then
  the optimizer step, in this order. After the pass the gradient is exactly the gradient
  of the current batch at the parameters the pass started with, whatever had been
  accumulated before, and the parameters have moved by the learning rate times that
  gradient. When the loader yields at least one batch in every epoch, the whole loop
  returns, and it has done such a pass for every batch of every epoch, in the order the
  loader yields them: the parameters it leaves are those of one gradient step per batch,
  each step taken with the gradient of its own batch at the parameters the step before
  it left; the gradient it leaves is the one of the last batch alone, at the parameters
  before the last step; and the calls it has made are the sequence of five, once per
  batch.
\<close>

theorem training_loop_order:
  assumes "list_all (\<lambda>e. trainloader e \<noteq> []) [0..<epochs]"
  shows "training_pass loss_fn grad_fn lr b (s, r) =
           (s\<lparr>params := \<lambda>i. params s i - lr * grad_fn (params s) b i,
              grads := Some (grad_fn (params s) b),
              calls := calls s @ [ModelForward, Criterion, ZeroGrad, Backward, OptimizerStep]\<rparr>,
            r + loss_fn (params s) b) \<and>
         (\<exists>s'. training_loop loss_fn grad_fn lr epochs trainloader s = Inr s' \<and>
            params s' =
              fold (\<lambda>b p i. p i - lr * grad_fn p b i)
                (concat (map trainloader [0..<epochs])) (params s) \<and>
            grads s' =
              (if epochs = 0 then grads s
               else Some (grad_fn
                      (fold (\<lambda>b p i. p i - lr * grad_fn p b i)
                         (butlast (concat (map trainloader [0..<epochs]))) (params s))
                      (last (concat (map trainloader [0..<epochs]))))) \<and>
            calls s' = calls s @
              concat (replicate (\<Sum>e<epochs. length (trainloader e))
                [ModelForward, Criterion, ZeroGrad, Backward, OptimizerStep]))"
proof -
  have count: "sum_list (map (\<lambda>e. length (trainloader e)) [0..<epochs]) =
          (\<Sum>e<epochs. length (trainloader e))"
    by (simp add: interv_sum_list_conv_sum_set_nat atLeast0LessThan)
  have nil: "([0..<epochs] = []) = (epochs = 0)"
    by simp
  have pass: "training_pass loss_fn grad_fn lr b (s, r) =
           (s\<lparr>params := \<lambda>i. params s i - lr * grad_fn (params s) b i,
              grads := Some (grad_fn (params s) b),
              calls := calls s @ [ModelForward, Criterion, ZeroGrad, Backward, OptimizerStep]\<rparr>,
            r + loss_fn (params s) b)"
    by (simp add: training_pass_eq pass_calls_def)
  show ?thesis
    using train_epochs_state [OF assms, of loss_fn grad_fn lr s] pass
    unfolding training_loop_def count nil pass_calls_def
    by blast
qed

text \<open>Two epochs over the batches 1 and 2, the loss of a batch being the batch and its
  gradient at parameters \<open>p\<close> being \<open>p + b\<close> at every position, with learning rate 1
  from parameters 0: the parameters go to -1, -2, -1 and -2, and the last gradient is
  \<open>-1 + 2\<close>.\<close>

theorem training_loop_order_witness:
  "\<exists>s'. training_loop (\<lambda>p b. b) (\<lambda>p b i. p i + b) 1 2 (\<lambda>e. [1, 2])
           \<lparr>params = (\<lambda>i. 0), grads = None, calls = [], printed = []\<rparr> = Inr s' \<and>
         params s' = (\<lambda>i. - 2) \<and> grads s' = Some (\<lambda>i. 1) \<and>
         calls s' = [ModelForward, Criterion, ZeroGrad, Backward, OptimizerStep,
                     ModelForward, Criterion, ZeroGrad, Backward, OptimizerStep,
                     ModelForward, Criterion, ZeroGrad, Backward, OptimizerStep,
                     ModelForward, Criterion, ZeroGrad, Backward, OptimizerStep]"
  using training_loop_order [of "\<lambda>e. [1, 2]" 2 "\<lambda>p b. b" "\<lambda>p b i. p i + b" 1 0
      "\<lparr>params = (\<lambda>i. 0), grads = None, calls = [], printed = []\<rparr>" 0]
  by (simp add: eval_nat_numeral)

section \<open>Properties of saving and loading\<close>

subsection \<open>The entries of a state dict\<close>

lemma map_of_hidden_entries_weight:
  "map_of (hidden_entries n ls) (HiddenWeight i) =
     (if n \<le> i \<and> i < n + length ls then Some (Mat (weight (ls ! (i - n)))) else None)"
proof (induction ls arbitrary: n)
  case Nil
  then show ?case by simp
next
  case (Cons l ls)
  show ?case
  proof (cases "i = n")
    case True
    then show ?thesis by simp
  next
    case False
    then show ?thesis
      by (auto simp: Cons.IH nth_Cons')
  qed
qed

lemma map_of_hidden_entries_bias:
  "map_of (hidden_entries n ls) (HiddenBias i) =
     (if n \<le> i \<and> i < n + length ls then Some (Vec (bias (ls ! (i - n)))) else None)"
proof (induction ls arbitrary: n)
  case Nil
  then show ?case by simp
next
  case (Cons l ls)
  show ?case
  proof (cases "i = n")
    case True
    then show ?thesis by simp
  next
    case False
    then show ?thesis
      by (auto simp: Cons.IH nth_Cons')
  qed
qed

lemma map_of_hidden_entries_output:
  "map_of (hidden_entries n ls) OutputWeight = None"
  "map_of (hidden_entries n ls) OutputBias = None"
  by (induction ls arbitrary: n) simp_all

lemma map_of_state_dict:
  "map_of (state_dict m) (HiddenWeight i) =
     (if i < length (hidden_layers m) then Some (Mat (weight (hidden_layers m ! i))) else None)"
  "map_of (state_dict m) (HiddenBias i) =
     (if i < length (hidden_layers m) then Some (Vec (bias (hidden_layers m ! i))) else None)"
  "map_of (state_dict m) OutputWeight = Some (Mat (weight (output' m)))"
  "map_of (state_dict m) OutputBias = Some (Vec (bias (output' m)))"
  by (simp_all add: state_dict_def map_add_def map_of_hidden_entries_weight
      map_of_hidden_entries_bias map_of_hidden_entries_output)

lemma keys_hidden_entries:
  "fst ` set (hidden_entries n ls) =
     HiddenWeight ` {n..<n + length ls} \<union> HiddenBias ` {n..<n + length ls}"
proof (induction ls arbitrary: n)
  case Nil
  then show ?case by simp
next
  case (Cons l ls)
  have "{n..<n + length (l # ls)} = insert n {Suc n..<Suc n + length ls}"
    by auto
  then show ?case
    by (simp add: Cons.IH) blast
qed

lemma keys_state_dict:
  "set (map fst (state_dict m)) =
     HiddenWeight ` {0..<length (hidden_layers m)} \<union> HiddenBias ` {0..<length (hidden_layers m)} \<union>
     {OutputWeight, OutputBias}"
  using keys_hidden_entries [of 0 "hidden_layers m"] by (auto simp: state_dict_def)

lemma no_unexpected_keys:
  "filter (\<lambda>k. k \<notin> set (map fst (state_dict m))) (map fst (state_dict m0)) = [] \<longleftrightarrow>
     length (hidden_layers m0) \<le> length (hidden_layers m)"
proof -
  let ?n = "length (hidden_layers m)" and ?n' = "length (hidden_layers m0)"
  have "filter (\<lambda>k. k \<notin> set (map fst (state_dict m))) (map fst (state_dict m0)) = [] \<longleftrightarrow>
          set (map fst (state_dict m0)) \<subseteq> set (map fst (state_dict m))"
    by (auto simp: filter_empty_conv)
  also have "\<dots> \<longleftrightarrow> ?n' \<le> ?n"
  proof
    assume sub: "set (map fst (state_dict m0)) \<subseteq> set (map fst (state_dict m))"
    show "?n' \<le> ?n"
    proof (rule ccontr)
      assume "\<not> ?n' \<le> ?n"
      then have "?n < ?n'" by simp
      then have "HiddenWeight ?n \<in> set (map fst (state_dict m0))"
        unfolding keys_state_dict by auto
      then have "HiddenWeight ?n \<in> set (map fst (state_dict m))"
        using sub by blast
      then have "?n < ?n"
        unfolding keys_state_dict by auto
      then show False by simp
    qed
  next
    assume "?n' \<le> ?n"
    then show "set (map fst (state_dict m0)) \<subseteq> set (map fst (state_dict m))"
      unfolding keys_state_dict by auto
  qed
  finally show ?thesis .
qed

subsection \<open>When loading a state dict fails\<close>

lemma load_linear_ok:
  "snd (load_linear sd kw kb l) \<longleftrightarrow>
     (\<exists>t. map_of sd kw = Some t \<and> shape t = shape (Mat (weight l))) \<and>
     (\<exists>t. map_of sd kb = Some t \<and> shape t = shape (Vec (bias l)))"
  by (auto simp: load_linear_def load_tensor_def Let_def split: option.splits)

lemma load_hidden_ok:
  "list_all snd (load_hidden (state_dict m0) k ls) \<longleftrightarrow>
     (\<forall>j<length ls. k + j < length (hidden_layers m0) \<and>
        shapes_agree (ls ! j) (hidden_layers m0 ! (k + j)))"
proof (induction ls arbitrary: k)
  case Nil
  then show ?case by simp
next
  case (Cons l ls)
  have head: "snd (load_linear (state_dict m0) (HiddenWeight k) (HiddenBias k) l) \<longleftrightarrow>
      k < length (hidden_layers m0) \<and> shapes_agree l (hidden_layers m0 ! k)"
    by (auto simp: load_linear_ok map_of_state_dict shapes_agree_def)
  show ?case
    by (simp add: Cons.IH head All_less_Suc2)
qed

lemma param_shapes_hidden_eq:
  "map (\<lambda>(k, t). (k, shape t)) (hidden_entries n ls) =
   map (\<lambda>(k, t). (k, shape t)) (hidden_entries n ls0) \<longleftrightarrow>
     length ls = length ls0 \<and> (\<forall>j<length ls. shapes_agree (ls ! j) (ls0 ! j))"
proof (induction ls arbitrary: ls0 n)
  case Nil
  then show ?case by (cases ls0) simp_all
next
  case (Cons l ls)
  show ?case
  proof (cases ls0)
    case Nil
    then show ?thesis by simp
  next
    case (Cons l0 ls0')
    then show ?thesis
      by (auto simp: Cons.IH shapes_agree_def All_less_Suc2)
  qed
qed

lemma length_hidden_entries: "length (hidden_entries n ls) = 2 * length ls"
  by (induction ls arbitrary: n) simp_all

lemma param_shapes_eq:
  "param_shapes m = param_shapes m0 \<longleftrightarrow>
     length (hidden_layers m) = length (hidden_layers m0) \<and>
     (\<forall>j<length (hidden_layers m). shapes_agree (hidden_layers m ! j) (hidden_layers m0 ! j)) \<and>
     shapes_agree (output' m) (output' m0)"
proof -
  let ?f = "\<lambda>(k, t). (k, shape t) :: param_name \<times> nat list"
  let ?xs = "map ?f (hidden_entries 0 (hidden_layers m))"
  let ?ys = "map ?f (hidden_entries 0 (hidden_layers m0))"
  let ?us = "map ?f [(OutputWeight, Mat (weight (output' m))), (OutputBias, Vec (bias (output' m)))]"
  let ?vs = "map ?f [(OutputWeight, Mat (weight (output' m0))), (OutputBias, Vec (bias (output' m0)))]"
  have "param_shapes m = param_shapes m0 \<longleftrightarrow> ?xs @ ?us = ?ys @ ?vs"
    by (simp add: param_shapes_def state_dict_def)
  also have "\<dots> \<longleftrightarrow> ?xs = ?ys \<and> ?us = ?vs"
    by (rule append_eq_append_conv) simp
  also have "?us = ?vs \<longleftrightarrow> shapes_agree (output' m) (output' m0)"
    by (auto simp: shapes_agree_def)
  finally show ?thesis
    by (simp add: param_shapes_hidden_eq)
qed

lemma load_state_dict_fails_iff:
  "fst (load_state_dict m (state_dict m0)) = Inl RuntimeError \<longleftrightarrow>
     param_shapes m \<noteq> param_shapes m0"
proof -
  let ?n = "length (hidden_layers m)" and ?n' = "length (hidden_layers m0)"
  have out: "snd (load_linear (state_dict m0) OutputWeight OutputBias (output' m)) \<longleftrightarrow>
      shapes_agree (output' m) (output' m0)"
    by (auto simp: load_linear_ok map_of_state_dict shapes_agree_def)
  have hid: "list_all snd (load_hidden (state_dict m0) 0 (hidden_layers m)) \<longleftrightarrow>
      (\<forall>j<?n. j < ?n' \<and> shapes_agree (hidden_layers m ! j) (hidden_layers m0 ! j))"
    using load_hidden_ok [of m0 0 "hidden_layers m"] by simp
  have len: "(\<forall>j<?n. j < ?n') \<longleftrightarrow> ?n \<le> ?n'"
    by (metis leI less_le_trans less_irrefl)
  have "fst (load_state_dict m (state_dict m0)) \<noteq> Inl RuntimeError \<longleftrightarrow>
      (\<forall>j<?n. j < ?n' \<and> shapes_agree (hidden_layers m ! j) (hidden_layers m0 ! j)) \<and>
      shapes_agree (output' m) (output' m0) \<and> ?n' \<le> ?n"
    by (simp only: load_state_dict_def Let_def fst_conv hid out no_unexpected_keys) simp
  also have "\<dots> \<longleftrightarrow> param_shapes m = param_shapes m0"
    unfolding param_shapes_eq using len by auto
  finally show ?thesis by blast
qed

subsection \<open>What loading leaves in the model\<close>

lemma shape_Mat_eq: "shape t = shape (Mat W) \<Longrightarrow> \<exists>W'. t = Mat W'"
  by (cases t) simp_all

lemma shape_Vec_eq: "shape t = shape (Vec v) \<Longrightarrow> \<exists>v'. t = Vec v'"
  by (cases t) simp_all

lemma load_linear_weight:
  "Mat (weight (fst (load_linear sd kw kb l))) =
     (case load_tensor sd kw (Mat (weight l)) of Some t \<Rightarrow> t | None \<Rightarrow> Mat (weight l))"
proof (cases "load_tensor sd kw (Mat (weight l))")
  case None
  then show ?thesis by (simp add: load_linear_def Let_def)
next
  case (Some t)
  then have "shape t = shape (Mat (weight l))"
    by (auto simp: load_tensor_def split: option.splits if_splits)
  then obtain W where "t = Mat W"
    using shape_Mat_eq by blast
  with Some show ?thesis by (simp add: load_linear_def Let_def)
qed

lemma load_linear_bias:
  "Vec (bias (fst (load_linear sd kw kb l))) =
     (case load_tensor sd kb (Vec (bias l)) of Some t \<Rightarrow> t | None \<Rightarrow> Vec (bias l))"
proof (cases "load_tensor sd kb (Vec (bias l))")
  case None
  then show ?thesis by (simp add: load_linear_def Let_def)
next
  case (Some t)
  then have "shape t = shape (Vec (bias l))"
    by (auto simp: load_tensor_def split: option.splits if_splits)
  then obtain v where "t = Vec v"
    using shape_Vec_eq by blast
  with Some show ?thesis by (simp add: load_linear_def Let_def)
qed

lemma hidden_entries_loaded:
  "hidden_entries n (map fst (load_hidden sd n ls)) = map (loaded sd) (hidden_entries n ls)"
  by (induction ls arbitrary: n)
    (simp_all add: loaded_def load_linear_weight load_linear_bias split: option.splits)

lemma state_dict_after_load:
  "state_dict (snd (load_state_dict m sd)) = map (loaded sd) (state_dict m)"
  by (simp add: load_state_dict_def Let_def state_dict_def hidden_entries_loaded
      loaded_def load_linear_weight load_linear_bias split: option.splits)

lemma ncols_nn_Linear: "ncols (weight (nn_Linear init i out)) = (if out = 0 then 0 else i)"
  by (cases out) (simp_all add: nn_Linear_def ncols_def upt_conv_Cons del: upt_Suc)

lemma shape_weight_nn_Linear:
  "shape (Mat (weight (nn_Linear init i out))) = [out, if out = 0 then 0 else i]"
  by (simp add: ncols_nn_Linear nrows_def) (simp add: nn_Linear_def)

lemma length_bias_nn_Linear: "length (bias (nn_Linear init i out)) = out"
  by (simp add: nn_Linear_def)

lemma shape_weight_wf:
  assumes "wf_linear l"
  shows "shape (Mat (weight l)) = [out_features l, if out_features l = 0 then 0 else in_features l]"
proof (cases "weight l")
  case Nil
  then show ?thesis using assms by (simp add: wf_linear_def nrows_def ncols_def)
next
  case (Cons r rs)
  then show ?thesis using assms by (auto simp: wf_linear_def nrows_def ncols_def)
qed

lemma output_after_load:
  "output' (snd (load_state_dict m sd)) = fst (load_linear sd OutputWeight OutputBias (output' m))"
  by (simp add: load_state_dict_def Let_def)

lemma notebook_mismatch:
  "\<exists>m1 m2. Network i1 784 10 [400, 200, 100] = Inr m1 \<and>
      Network i2 784 10 [512, 256, 128] = Inr m2 \<and>
      fst (load_state_dict m1 (state_dict m2)) = Inl RuntimeError \<and>
      weight (output' (snd (load_state_dict m1 (state_dict m2)))) = weight (output' m1) \<and>
      bias (output' (snd (load_state_dict m1 (state_dict m2)))) = bias (output' m2)"
proof -
  obtain m1 where m1: "Network i1 784 10 [400, 200, 100] = Inr m1"
    and o1: "output' m1 = nn_Linear (i1 (length [400::nat, 200, 100])) 100 10"
    by (simp add: Network_def)
  obtain m2 where m2: "Network i2 784 10 [512, 256, 128] = Inr m2"
    and o2: "output' m2 = nn_Linear (i2 (length [512::nat, 256, 128])) 128 10"
    by (simp add: Network_def)
  have "\<not> shapes_agree (output' m1) (output' m2)"
    by (simp add: shapes_agree_def o1 o2 ncols_nn_Linear)
  then have fails: "fst (load_state_dict m1 (state_dict m2)) = Inl RuntimeError"
    by (simp add: load_state_dict_fails_iff param_shapes_eq)
  have w: "load_tensor (state_dict m2) OutputWeight (Mat (weight (output' m1))) = None"
    by (simp add: load_tensor_def map_of_state_dict o1 o2 ncols_nn_Linear)
  have b: "load_tensor (state_dict m2) OutputBias (Vec (bias (output' m1))) =
             Some (Vec (bias (output' m2)))"
    by (simp add: load_tensor_def map_of_state_dict o1 o2 length_bias_nn_Linear)
  have "weight (output' (snd (load_state_dict m1 (state_dict m2)))) = weight (output' m1)"
    by (simp add: output_after_load load_linear_def Let_def w)
  moreover have "bias (output' (snd (load_state_dict m1 (state_dict m2)))) = bias (output' m2)"
    by (simp add: output_after_load load_linear_def Let_def b)
  ultimately show ?thesis
    using m1 m2 fails by blast
qed

text \<open>
  Claim C4 says that the parameters of the model are unchanged when \<open>load_state_dict\<close>
  fails. A model with layers of sizes 1 to 1 and 1 to 1 and all parameters 0 is given the
  state dict of a model with layers of sizes 2 to 1 and 1 to 1 and all parameters 1. The
  first weight has another shape, so the call raises; the first bias and both parameters
  of the output layer have matching shapes, and they have been overwritten with 1.
\<close>

theorem load_state_dict_partial_counterexample:
  "load_state_dict
     \<lparr>hidden_layers = [\<lparr>in_features = 1, out_features = 1, weight = [[0]], bias = [0]\<rparr>],
      output' = \<lparr>in_features = 1, out_features = 1, weight = [[0]], bias = [0]\<rparr>\<rparr>
     (state_dict
        \<lparr>hidden_layers = [\<lparr>in_features = 2, out_features = 1, weight = [[1, 1]], bias = [1]\<rparr>],
         output' = \<lparr>in_features = 1, out_features = 1, weight = [[1]], bias = [1]\<rparr>\<rparr>) =
   (Inl RuntimeError,
    \<lparr>hidden_layers = [\<lparr>in_features = 1, out_features = 1, weight = [[0]], bias = [1]\<rparr>],
     output' = \<lparr>in_features = 1, out_features = 1, weight = [[1]], bias = [1]\<rparr>\<rparr>)"
  by (simp add: load_state_dict_def state_dict_def load_linear_def load_tensor_def Let_def
      nrows_def ncols_def)

text \<open>
  Claim C4, amended. \<open>load_state_dict\<close> on the state dict of another network fails, with
  the library's \<open>RuntimeError\<close>, if and only if the names and shapes of the tensors of
  the two networks disagree. Whether it fails or not, it leaves in every parameter the
  tensor of the state dict when the name is there with the same shape, and the
  parameter's own tensor otherwise: on failure the parameters of another shape are
  unchanged, those of matching shape are overwritten. So it is for the notebook's
  example, hidden layers 400, 200, 100 against a state dict from 512, 256, 128: the call
  fails, the output weight is unchanged, and the output bias, of 10 entries in both, is
  the one of the state dict.
\<close>

theorem load_state_dict_shape_mismatch:
  "(fst (load_state_dict m (state_dict m0)) = Inl RuntimeError \<longleftrightarrow>
      param_shapes m \<noteq> param_shapes m0) \<and>
   state_dict (snd (load_state_dict m sd)) =
     map (\<lambda>(k, p). (k, case load_tensor sd k p of Some t \<Rightarrow> t | None \<Rightarrow> p)) (state_dict m) \<and>
   (\<exists>m1 m2. Network i1 784 10 [400, 200, 100] = Inr m1 \<and>
      Network i2 784 10 [512, 256, 128] = Inr m2 \<and>
      fst (load_state_dict m1 (state_dict m2)) = Inl RuntimeError \<and>
      weight (output' (snd (load_state_dict m1 (state_dict m2)))) = weight (output' m1) \<and>
      bias (output' (snd (load_state_dict m1 (state_dict m2)))) = bias (output' m2))"
proof -
  have "map (loaded sd) (state_dict m) =
      map (\<lambda>(k, p). (k, case load_tensor sd k p of Some t \<Rightarrow> t | None \<Rightarrow> p)) (state_dict m)"
    by (rule map_cong) (auto simp: loaded_def split: option.splits)
  then show ?thesis
    using load_state_dict_fails_iff [of m m0] state_dict_after_load [of m sd]
      notebook_mismatch [of i1 i2]
    by simp
qed

theorem load_state_dict_shape_mismatch_witness:
  "fst (load_state_dict
     \<lparr>hidden_layers = [\<lparr>in_features = 1, out_features = 1, weight = [[0]], bias = [0]\<rparr>],
      output' = \<lparr>in_features = 1, out_features = 1, weight = [[0]], bias = [0]\<rparr>\<rparr>
     (state_dict
        \<lparr>hidden_layers = [\<lparr>in_features = 2, out_features = 1, weight = [[1, 1]], bias = [1]\<rparr>],
         output' = \<lparr>in_features = 1, out_features = 1, weight = [[1]], bias = [1]\<rparr>\<rparr>)) =
     Inl RuntimeError \<and>
   param_shapes
     \<lparr>hidden_layers = [\<lparr>in_features = 1, out_features = 1, weight = [[0]], bias = [0]\<rparr>],
      output' = \<lparr>in_features = 1, out_features = 1, weight = [[0]], bias = [0]\<rparr>\<rparr> \<noteq>
   param_shapes
     \<lparr>hidden_layers = [\<lparr>in_features = 2, out_features = 1, weight = [[1, 1]], bias = [1]\<rparr>],
      output' = \<lparr>in_features = 1, out_features = 1, weight = [[1]], bias = [1]\<rparr>\<rparr>"
  using load_state_dict_shape_mismatch
    [of "\<lparr>hidden_layers = [\<lparr>in_features = 1, out_features = 1, weight = [[0]], bias = [0]\<rparr>],
          output' = \<lparr>in_features = 1, out_features = 1, weight = [[0]], bias = [0]\<rparr>\<rparr>"
        "\<lparr>hidden_layers = [\<lparr>in_features = 2, out_features = 1, weight = [[1, 1]], bias = [1]\<rparr>],
          output' = \<lparr>in_features = 1, out_features = 1, weight = [[1]], bias = [1]\<rparr>\<rparr>"]
  by (simp add: param_shapes_def state_dict_def nrows_def ncols_def)

subsection \<open>Saving a checkpoint and loading it\<close>

lemma load_linear_same:
  assumes "wf_linear l" and "map_of sd kw = Some (Mat (weight l))"
    and "map_of sd kb = Some (Vec (bias l))"
  shows "load_linear sd kw kb (nn_Linear init (in_features l) (out_features l)) = (l, True)"
proof -
  let ?l' = "nn_Linear init (in_features l) (out_features l)"
  have "shape (Mat (weight l)) = shape (Mat (weight ?l'))"
    unfolding shape_weight_wf [OF assms(1)] shape_weight_nn_Linear ..
  then have w: "load_tensor sd kw (Mat (weight ?l')) = Some (Mat (weight l))"
    by (simp only: load_tensor_def assms(2) option.case simp_thms if_True)
  have "length (bias l) = length (bias ?l')"
    using assms(1) by (simp add: wf_linear_def length_bias_nn_Linear)
  then have b: "load_tensor sd kb (Vec (bias ?l')) = Some (Vec (bias l))"
    by (simp add: load_tensor_def assms(3))
  have "?l'\<lparr>weight := weight l, bias := bias l\<rparr> = l"
    by (cases l) (simp add: nn_Linear_def)
  then show ?thesis
    by (simp add: load_linear_def Let_def w b)
qed

lemma load_hidden_all:
  assumes "length ls' = length ls"
    and "\<forall>j<length ls. map_of sd (HiddenWeight (k + j)) = Some (Mat (weight (ls ! j))) \<and>
           map_of sd (HiddenBias (k + j)) = Some (Vec (bias (ls ! j))) \<and> wf_linear (ls ! j) \<and>
           (\<exists>init. ls' ! j = nn_Linear init (in_features (ls ! j)) (out_features (ls ! j)))"
  shows "load_hidden sd k ls' = map (\<lambda>l. (l, True)) ls"
  using assms
proof (induction ls' ls arbitrary: k rule: list_induct2)
  case Nil
  then show ?case by simp
next
  case (Cons l' ls' l ls)
  from Cons.prems have h0: "map_of sd (HiddenWeight k) = Some (Mat (weight l))"
    "map_of sd (HiddenBias k) = Some (Vec (bias l))" "wf_linear l"
    "\<exists>init. l' = nn_Linear init (in_features l) (out_features l)"
    by force+
  then obtain init where l': "l' = nn_Linear init (in_features l) (out_features l)"
    by blast
  have head: "load_linear sd (HiddenWeight k) (HiddenBias k) l' = (l, True)"
    unfolding l' using h0(3,1,2) by (rule load_linear_same)
  have "\<forall>j<length ls. map_of sd (HiddenWeight (Suc k + j)) = Some (Mat (weight (ls ! j))) \<and>
           map_of sd (HiddenBias (Suc k + j)) = Some (Vec (bias (ls ! j))) \<and> wf_linear (ls ! j) \<and>
           (\<exists>init. ls' ! j = nn_Linear init (in_features (ls ! j)) (out_features (ls ! j)))"
  proof (intro allI impI)
    fix j assume "j < length ls"
    then have "Suc j < length (l # ls)" by simp
    from Cons.prems [rule_format, OF this]
    show "map_of sd (HiddenWeight (Suc k + j)) = Some (Mat (weight (ls ! j))) \<and>
           map_of sd (HiddenBias (Suc k + j)) = Some (Vec (bias (ls ! j))) \<and> wf_linear (ls ! j) \<and>
           (\<exists>init. ls' ! j = nn_Linear init (in_features (ls ! j)) (out_features (ls ! j)))"
      by simp
  qed
  then have "load_hidden sd (Suc k) ls' = map (\<lambda>l. (l, True)) ls"
    by (rule Cons.IH)
  then show ?case
    by (simp add: head)
qed

lemma built_from_sizes:
  assumes "built_from i out hs m"
  shows "length (hidden_layers m) = length hs"
    and "map out_features (hidden_layers m) = hs"
    and "\<And>j. j < length hs \<Longrightarrow>
           zip (i # hs) hs ! j = (in_features (hidden_layers m ! j), out_features (hidden_layers m ! j))"
proof -
  have eq: "map (\<lambda>l. (in_features l, out_features l)) (hidden_layers m) = zip (i # hs) hs"
    using assms by (simp add: built_from_def)
  from arg_cong [OF eq, of length] show len: "length (hidden_layers m) = length hs"
    by simp
  from arg_cong [OF eq, of "map snd"] show "map out_features (hidden_layers m) = hs"
    by (simp add: comp_def map_snd_zip_take)
  fix j assume "j < length hs"
  then show "zip (i # hs) hs ! j =
      (in_features (hidden_layers m ! j), out_features (hidden_layers m ! j))"
    using len by (simp add: eq [symmetric])
qed

lemma load_into_fresh_network:
  assumes "built_from i out hs m" and "Network inits i out hs = Inr m'"
  shows "load_state_dict m' (state_dict m) = (Inr (), m)"
proof -
  have hs: "hs \<noteq> []" and wfh: "list_all wf_linear (hidden_layers m)"
    and wfo: "wf_linear (output' m)" and oin: "in_features (output' m) = last hs"
    and oout: "out_features (output' m) = out"
    using assms(1) by (simp_all add: built_from_def)
  note sz = built_from_sizes [OF assms(1)]
  have hl': "hidden_layers m' =
      map (\<lambda>(n, i, out). nn_Linear (inits n) i out) (enumerate 0 (zip (i # hs) hs))"
    and o': "output' m' = nn_Linear (inits (length hs)) (last hs) out"
    using assms(2) hs by (auto simp: Network_def)
  have len': "length (hidden_layers m') = length (hidden_layers m)"
    by (simp add: hl' sz(1))
  have "load_hidden (state_dict m) 0 (hidden_layers m') =
      map (\<lambda>l. (l, True)) (hidden_layers m)"
  proof (rule load_hidden_all [OF len'], intro allI impI conjI)
    fix j assume j: "j < length (hidden_layers m)"
    show "map_of (state_dict m) (HiddenWeight (0 + j)) = Some (Mat (weight (hidden_layers m ! j)))"
      using j by (simp add: map_of_state_dict)
    show "map_of (state_dict m) (HiddenBias (0 + j)) = Some (Vec (bias (hidden_layers m ! j)))"
      using j by (simp add: map_of_state_dict)
    show "wf_linear (hidden_layers m ! j)"
      using wfh j by (simp add: list_all_length)
    have "hidden_layers m' ! j =
        nn_Linear (inits j) (in_features (hidden_layers m ! j)) (out_features (hidden_layers m ! j))"
      using j sz(1) sz(3) [of j] by (simp add: hl' nth_enumerate_eq)
    then show "\<exists>init. hidden_layers m' ! j =
        nn_Linear init (in_features (hidden_layers m ! j)) (out_features (hidden_layers m ! j))"
      by blast
  qed
  moreover have "load_linear (state_dict m) OutputWeight OutputBias (output' m') = (output' m, True)"
    unfolding o' oin [symmetric] oout [symmetric]
    using wfo by (rule load_linear_same) (simp_all add: map_of_state_dict)
  moreover have "filter (\<lambda>k. k \<notin> set (map fst (state_dict m'))) (map fst (state_dict m)) = []"
    unfolding no_unexpected_keys using len' by simp
  ultimately show ?thesis
    by (simp only: load_state_dict_def Let_def) (simp add: comp_def list_all_iff)
qed

lemma Network_returns: "hs \<noteq> [] \<Longrightarrow> \<exists>m'. Network inits i out hs = Inr m'"
  by (simp add: Network_def)

lemma load_checkpoint_saved:
  "load_checkpoint inits (torch_save (checkpoint m) path fs) path =
     ebind (Network inits 784 10 (map out_features (hidden_layers m)))
       (\<lambda>model. load_state_dict_of model (PyStateDict (state_dict m)))"
  by (simp add: load_checkpoint_def torch_save_def torch_load_def checkpoint_def ebind_Inr)

lemma built_from_Network:
  assumes "Network inits i out hs = Inr m"
  shows "built_from i out hs m"
proof -
  have hs: "hs \<noteq> []"
    using assms by (auto simp: Network_def split: if_splits)
  have hl: "hidden_layers m =
      map (\<lambda>(n, i, out). nn_Linear (inits n) i out) (enumerate 0 (zip (i # hs) hs))"
    and o: "output' m = nn_Linear (inits (length hs)) (last hs) out"
    using assms hs by (auto simp: Network_def)
  have wf: "wf_linear (nn_Linear init a b)" for init a b
    by (simp add: wf_linear_def nn_Linear_def list_all_iff)
  have "map (\<lambda>l. (in_features l, out_features l)) (hidden_layers m) = zip (i # hs) hs"
    unfolding hl
    by (rule nth_equalityI) (simp_all add: nth_enumerate_eq nn_Linear_def split_beta)
  moreover have "list_all wf_linear (hidden_layers m)"
    unfolding hl by (simp add: list_all_iff wf split_beta)
  ultimately show ?thesis
    using hs by (simp add: built_from_def o wf) (simp add: nn_Linear_def)
qed

text \<open>
  Claim C3 says that the round trip holds for every network built from an input size, an
  output size and a list of hidden-layer sizes. The checkpoint dictionary of the notebook
  records the input size 784 and the output size 10 whatever the model is. For the
  network built from input size 2, output size 1 and the hidden sizes [1],
  \<open>load_checkpoint\<close> on the saved checkpoint builds a network of input size 784, and
  loading the state dict into it raises.
\<close>

theorem checkpoint_other_input_size_counterexample:
  "Network (\<lambda>n. (\<lambda>r c. 1, \<lambda>r. 1)) 2 1 [1] =
     Inr \<lparr>hidden_layers = [\<lparr>in_features = 2, out_features = 1, weight = [[1, 1]], bias = [1]\<rparr>],
          output' = \<lparr>in_features = 1, out_features = 1, weight = [[1]], bias = [1]\<rparr>\<rparr> \<and>
   load_checkpoint (\<lambda>n. (\<lambda>r c. 0, \<lambda>r. 0))
     (torch_save (checkpoint
        \<lparr>hidden_layers = [\<lparr>in_features = 2, out_features = 1, weight = [[1, 1]], bias = [1]\<rparr>],
         output' = \<lparr>in_features = 1, out_features = 1, weight = [[1]], bias = [1]\<rparr>\<rparr>)
        ''checkpoint.pth'' (\<lambda>p. None)) ''checkpoint.pth'' =
   Inl RuntimeError"
proof -
  let ?m = "\<lparr>hidden_layers = [\<lparr>in_features = 2, out_features = 1, weight = [[1, 1]], bias = [1]\<rparr>],
         output' = \<lparr>in_features = 1, out_features = 1, weight = [[1]], bias = [1]\<rparr>\<rparr>"
  have built: "Network (\<lambda>n. (\<lambda>r c. 1, \<lambda>r. 1)) 2 1 [1] = Inr ?m"
    by (simp add: Network_def nn_Linear_def upt_conv_Cons)
  obtain m' where m': "Network (\<lambda>n. (\<lambda>r c. 0, \<lambda>r. 0)) 784 10 (map out_features (hidden_layers ?m)) = Inr m'"
    and h': "hidden_layers m' = [nn_Linear (\<lambda>r c. 0, \<lambda>r. 0) 784 1]"
    by (simp add: Network_def)
  have "\<not> shapes_agree (hidden_layers m' ! 0) (hidden_layers ?m ! 0)"
    by (simp add: h' shapes_agree_def ncols_nn_Linear ncols_Cons)
  then have "param_shapes m' \<noteq> param_shapes ?m"
    by (auto simp: param_shapes_eq h')
  then have "fst (load_state_dict m' (state_dict ?m)) = Inl RuntimeError"
    unfolding load_state_dict_fails_iff .
  then have "load_state_dict_of m' (PyStateDict (state_dict ?m)) = Inl RuntimeError"
    by (cases "load_state_dict m' (state_dict ?m)") simp
  then have "load_checkpoint (\<lambda>n. (\<lambda>r c. 0, \<lambda>r. 0))
     (torch_save (checkpoint ?m) ''checkpoint.pth'' (\<lambda>p. None)) ''checkpoint.pth'' = Inl RuntimeError"
    by (simp only: load_checkpoint_saved m' ebind_Inr)
  with built show ?thesis by blast
qed

text \<open>
  Claim C3, amended. For every feed-forward network with the architecture built from the
  input size 784, the output size 10 and a non-empty list of hidden-layer sizes, whatever
  the values of its parameters, saving the checkpoint dictionary and then calling
  \<open>load_checkpoint\<close> on the saved file returns a model that is identical to the
  original: the same layer sizes and the same parameter values.
\<close>

theorem checkpoint_round_trip:
  assumes "built_from 784 10 hs m"
  shows "load_checkpoint inits (torch_save (checkpoint m) path fs) path = Inr m"
proof -
  have hs: "hs \<noteq> []"
    using assms by (simp add: built_from_def)
  then obtain m' where m': "Network inits 784 10 hs = Inr m'"
    using Network_returns by blast
  have "load_state_dict m' (state_dict m) = (Inr (), m)"
    using assms m' by (rule load_into_fresh_network)
  then show ?thesis
    by (simp add: load_checkpoint_saved built_from_sizes(2) [OF assms] m' ebind_Inr)
qed

theorem checkpoint_round_trip_witness:
  "built_from 784 10 [1]
     \<lparr>hidden_layers = [\<lparr>in_features = 784, out_features = 1, weight = [replicate 784 1], bias = [2]\<rparr>],
      output' = \<lparr>in_features = 1, out_features = 10, weight = replicate 10 [3], bias = replicate 10 4\<rparr>\<rparr> \<and>
   load_checkpoint (\<lambda>n. (\<lambda>r c. 0, \<lambda>r. 0))
     (torch_save (checkpoint
        \<lparr>hidden_layers = [\<lparr>in_features = 784, out_features = 1, weight = [replicate 784 1], bias = [2]\<rparr>],
         output' = \<lparr>in_features = 1, out_features = 10, weight = replicate 10 [3], bias = replicate 10 4\<rparr>\<rparr>)
        ''checkpoint.pth'' (\<lambda>p. None)) ''checkpoint.pth'' =
   Inr \<lparr>hidden_layers = [\<lparr>in_features = 784, out_features = 1, weight = [replicate 784 1], bias = [2]\<rparr>],
        output' = \<lparr>in_features = 1, out_features = 10, weight = replicate 10 [3], bias = replicate 10 4\<rparr>\<rparr>"
proof -
  have b: "built_from 784 10 [1]
     \<lparr>hidden_layers = [\<lparr>in_features = 784, out_features = 1, weight = [replicate 784 1], bias = [2]\<rparr>],
      output' = \<lparr>in_features = 1, out_features = 10, weight = replicate 10 [3], bias = replicate 10 4\<rparr>\<rparr>"
    by (simp add: built_from_def wf_linear_def list_all_iff)
  show ?thesis
    using b checkpoint_round_trip [OF b] by simp
qed

end
